theory Spec2Isabelle
  imports Main "HOL-Library.AList"
begin

section \<open>Data model\<close>

text \<open>
  The repository holds two revisions of one program: \<^verbatim>\<open>swapi_manager.py\<close> (paginated fetch,
  column filter, command line) and \<^verbatim>\<open>main.py\<close> (a shorter script with its own copies of the
  classes). Definitions translated from \<^verbatim>\<open>swapi_manager.py\<close> keep the source's names; those
  translated from \<^verbatim>\<open>main.py\<close> carry the prefix \<open>main_\<close>.

  A raw record is a Python \<^verbatim>\<open>dict\<close> decoded from JSON: an ordered list of bindings whose keys
  are pairwise distinct. The program never looks inside a field value itself, only pandas
  does, so the value type is a parameter \<open>'v\<close>.
\<close>

type_synonym 'v raw_record = "(string \<times> 'v) list"

text \<open>A JSON value type, used to run the definitions on concrete records.\<close>

datatype json = JNull | JBool bool | JNum int | JStr string | JArr "json list"
  | JObj "(string \<times> json) list"

text \<open>
  The exceptions the modelled code can raise. \<open>HTTPError\<close> comes from
  \<^verbatim>\<open>response.raise_for_status()\<close> and carries the status and the URL, \<open>ConnectionError\<close> from
  \<^verbatim>\<open>requests.get\<close>, \<open>KeyError\<close> from a dictionary or column lookup (it carries the labels that
  were not found), \<open>ValueError\<close> from \<^verbatim>\<open>fetch_entity\<close> of \<^verbatim>\<open>main.py\<close> (it carries the endpoint)
  and from a workbook writer that refuses a sheet title (it carries the title), \<open>IndexError\<close>
  from a workbook writer that closes a workbook without a sheet.
\<close>

datatype error = HTTPError nat string | ConnectionError string | KeyError "string list"
  | ValueError string | IndexError

text \<open>How a call ends: it returns, or it raises; the state after the call is given beside it.\<close>

datatype outcome = Returned | Raised error

subsection \<open>The remote API\<close>

text \<open>
  The body of a response is taken to be a JSON object; \<open>results\<close> is \<open>None\<close> when the key is
  absent (then \<^verbatim>\<open>data['results']\<close> raises), \<open>next\<close> is \<open>None\<close> when the key is absent or null
  (\<^verbatim>\<open>data.get('next')\<close> is \<^verbatim>\<open>None\<close> in both cases).
\<close>

record 'v page =
  results :: "'v raw_record list option"
  "next" :: "string option"

datatype 'v response = NoResponse | Resp nat "'v page"

type_synonym 'v server = "string \<Rightarrow> 'v response"

text \<open>\<^verbatim>\<open>raise_for_status\<close> raises for the client and server error classes, 4xx and 5xx.\<close>

definition raises_for_status :: "nat \<Rightarrow> bool" where
  "raises_for_status st \<longleftrightarrow> 400 \<le> st \<and> st < 600"

section \<open>SWAPIClient\<close>

text \<open>
  \<^verbatim>\<open>
  def fetch_json(self, endpoint):
      all_data = []
      url = self.base_url + endpoint
      while url:
          response = requests.get(url)
          response.raise_for_status()
          data = response.json()
          all_data.extend(data['results'])
          url = data.get('next')
      return all_data
  \<close>
  The loop variable \<^verbatim>\<open>url\<close> is a string or \<^verbatim>\<open>None\<close>; \<^verbatim>\<open>while url\<close> stops on \<^verbatim>\<open>None\<close> and on the
  empty string. A chain of \<open>next\<close> links may be cyclic, so the loop is a partial function:
  \<open>None\<close> is the run that never returns.
\<close>

partial_function (option) fetch_loop ::
  "'v server \<Rightarrow> string option \<Rightarrow> 'v raw_record list \<Rightarrow> (error + 'v raw_record list) option"
where
  "fetch_loop srv url all_data =
     (case url of
        None \<Rightarrow> Some (Inr all_data)
      | Some u \<Rightarrow>
          if u = [] then Some (Inr all_data)
          else (case srv u of
                  NoResponse \<Rightarrow> Some (Inl (ConnectionError u))
                | Resp st body \<Rightarrow>
                    if raises_for_status st then Some (Inl (HTTPError st u))
                    else (case results body of
                            None \<Rightarrow> Some (Inl (KeyError [''results'']))
                          | Some rs \<Rightarrow> fetch_loop srv (next body) (all_data @ rs))))"

definition fetch_json ::
  "'v server \<Rightarrow> string \<Rightarrow> string \<Rightarrow> (error + 'v raw_record list) option" where
  "fetch_json srv base_url endpoint = fetch_loop srv (Some (base_url @ endpoint)) []"

text \<open>
  \<^verbatim>\<open>main.py\<close>: one request, no loop.
  \<^verbatim>\<open>
  def fetch_json(self, endpoint):
      url = f"{self.base_url}/{endpoint}/"
      response = requests.get(url)
      response.raise_for_status()
      return response.json()['results']
  \<close>
\<close>

definition main_fetch_json ::
  "'v server \<Rightarrow> string \<Rightarrow> string \<Rightarrow> error + 'v raw_record list" where
  "main_fetch_json srv base_url endpoint =
     (let url = base_url @ ''/'' @ endpoint @ ''/'' in
      case srv url of
        NoResponse \<Rightarrow> Inl (ConnectionError url)
      | Resp st body \<Rightarrow>
          if raises_for_status st then Inl (HTTPError st url)
          else (case results body of
                  None \<Rightarrow> Inl (KeyError [''results''])
                | Some rs \<Rightarrow> Inr rs))"

text \<open>
  A paginated response chain, as the loop meets it: starting from the loop variable \<open>url\<close>, the
  server answers each request with a success status and the next element of \<open>pages\<close>, each page
  linking to the following one; \<open>final\<close> is the \<open>next\<close> value of the final page.
\<close>

fun chain :: "'v server \<Rightarrow> string option \<Rightarrow> 'v raw_record list list \<Rightarrow> string option \<Rightarrow> bool"
where
  "chain srv url [] final = (url = final)"
| "chain srv url (rs # rest) final =
     (case url of
        None \<Rightarrow> False
      | Some u \<Rightarrow>
          u \<noteq> [] \<and>
          (case srv u of
             NoResponse \<Rightarrow> False
           | Resp st body \<Rightarrow>
               \<not> raises_for_status st \<and> results body = Some rs \<and> chain srv (next body) rest final))"

section \<open>Tables\<close>

text \<open>
  A \<^verbatim>\<open>pandas.DataFrame\<close> is stored by column: \<open>cols\<close> maps each column label, in column order,
  to the column's values (one per row), and \<open>nrows\<close> is the length of the row index; every
  column of a frame that the program builds has \<open>nrows\<close> entries and the labels are pairwise
  distinct. A cell holds a value of the input, a number, or the missing value.
\<close>

datatype ('v, 'n) cell = NaN | Val 'v | Num 'n

record ('v, 'n) dataframe =
  cols :: "(string \<times> ('v, 'n) cell list) list"
  nrows :: nat

definition columns :: "('v, 'n) dataframe \<Rightarrow> string list" where
  "columns df = map fst (cols df)"

text \<open>
  pandas keeps each column in one dtype, known by its name (\<^verbatim>\<open>object\<close>, \<^verbatim>\<open>int64\<close>,
  \<^verbatim>\<open>float64\<close>, ...). What it decides from the values, and how it represents a value in a
  dtype, is library code; the model takes it as a parameter, a record of five functions:
  \<^item> \<open>infer_dtype\<close>: the dtype that \<^verbatim>\<open>pd.DataFrame\<close> chooses for a column, from all entries of
    the column (\<open>None\<close> where a record has no such field);
  \<^item> \<open>cast\<close>: the cell that holds a value in a column of that dtype (a JSON null in a
    float column is the missing value, an integer there is a float);
  \<^item> \<open>to_num\<close>: the number that \<^verbatim>\<open>pd.to_numeric\<close> reads from one value, \<open>None\<close> when the value
    is not a number;
  \<^item> \<open>numeric_dtype\<close>: the dtype of the column that \<^verbatim>\<open>pd.to_numeric\<close> returns, from what it
    read in all entries (float64 beside a missing value, int64 for integers alone);
  \<^item> \<open>store\<close>: the number as that dtype holds it (float64 rounds an integer above \<open>2^53\<close>).
\<close>

type_synonym dtype = string

record ('v, 'n) pandas =
  infer_dtype :: "'v option list \<Rightarrow> dtype"
  cast :: "dtype \<Rightarrow> 'v \<Rightarrow> ('v, 'n) cell"
  to_num :: "'v \<Rightarrow> 'n option"
  numeric_dtype :: "'n option list \<Rightarrow> dtype"
  store :: "dtype \<Rightarrow> 'n \<Rightarrow> 'n"

text \<open>
  \<^verbatim>\<open>pd.DataFrame(json_data)\<close> on a list of dicts: the columns are the keys of all records in
  order of first appearance; the column of a key holds, row by row, the missing value where
  the record has no such key and else the record's value in the dtype of the column. On the
  empty list the frame has no column and no row.
\<close>

definition add_key :: "string list \<Rightarrow> string \<Rightarrow> string list" where
  "add_key uniques k = (if k \<in> set uniques then uniques else uniques @ [k])"

definition all_keys :: "'v raw_record list \<Rightarrow> string list" where
  "all_keys json_data = fold (\<lambda>r uniques. fold (\<lambda>k u. add_key u k) (map fst r) uniques) json_data []"

definition field_values :: "'v raw_record list \<Rightarrow> string \<Rightarrow> 'v option list" where
  "field_values json_data c = map (\<lambda>r. map_of r c) json_data"

definition column :: "('v, 'n) pandas \<Rightarrow> 'v option list \<Rightarrow> ('v, 'n) cell list" where
  "column pd xs =
     map (\<lambda>x. case x of None \<Rightarrow> NaN | Some v \<Rightarrow> cast pd (infer_dtype pd xs) v) xs"

definition DataFrame :: "('v, 'n) pandas \<Rightarrow> 'v raw_record list \<Rightarrow> ('v, 'n) dataframe" where
  "DataFrame pd json_data =
     \<lparr>cols = map (\<lambda>c. (c, column pd (field_values json_data c))) (all_keys json_data),
      nrows = length json_data\<rparr>"

text \<open>\<^verbatim>\<open>df[c]\<close> raises \<^verbatim>\<open>KeyError\<close> when \<open>c\<close> is not a column.\<close>

definition getitem :: "('v, 'n) dataframe \<Rightarrow> string \<Rightarrow> error + ('v, 'n) cell list" where
  "getitem df c = (case map_of (cols df) c of None \<Rightarrow> Inl (KeyError [c]) | Some s \<Rightarrow> Inr s)"

text \<open>\<^verbatim>\<open>df[c] = s\<close> replaces the column \<open>c\<close> where it stands, or appends it as the last column.\<close>

definition setitem ::
  "('v, 'n) dataframe \<Rightarrow> string \<Rightarrow> ('v, 'n) cell list \<Rightarrow> ('v, 'n) dataframe" where
  "setitem df c s = df\<lparr>cols := AList.update c s (cols df)\<rparr>"

text \<open>
  \<^verbatim>\<open>pd.to_numeric(s, errors='coerce')\<close> reads a number from every cell (\<open>parse\<close>), chooses the
  dtype of the result from all that it read, and returns the column of the numbers in that
  dtype; with \<^verbatim>\<open>errors='coerce'\<close> a cell that is not a number becomes the missing value and
  nothing is raised.
\<close>

definition parse :: "('v, 'n) pandas \<Rightarrow> ('v, 'n) cell \<Rightarrow> 'n option" where
  "parse pd x = (case x of NaN \<Rightarrow> None | Num n \<Rightarrow> Some n | Val v \<Rightarrow> to_num pd v)"

definition numeric_cell :: "('v, 'n) pandas \<Rightarrow> dtype \<Rightarrow> ('v, 'n) cell \<Rightarrow> ('v, 'n) cell" where
  "numeric_cell pd d x = (case parse pd x of None \<Rightarrow> NaN | Some n \<Rightarrow> Num (store pd d n))"

definition to_numeric :: "('v, 'n) pandas \<Rightarrow> ('v, 'n) cell list \<Rightarrow> ('v, 'n) cell list" where
  "to_numeric pd s = map (numeric_cell pd (numeric_dtype pd (map (parse pd) s))) s"

text \<open>
  \<^verbatim>\<open>df.drop(columns=labels, inplace=True)\<close> with the default \<^verbatim>\<open>errors='raise'\<close>. pandas runs
  \<^verbatim>\<open>
  obj = self._drop_axis(labels, axis)     # new_axis = axis.drop(labels): KeyError
  if inplace:
      self._update_inplace(obj)
  \<close>
  \<open>drop_columns\<close> is the first line: it raises \<^verbatim>\<open>KeyError\<close> with the labels that are not
  columns, or builds the frame without the labelled columns. \<open>update_inplace\<close> gives the frame
  \<open>self\<close> the content of \<open>obj\<close>. \<open>drop_inplace\<close> is the call: its result is how the call ends
  and the frame \<open>self\<close> after it.
\<close>

definition drop_columns :: "('v, 'n) dataframe \<Rightarrow> string list \<Rightarrow> error + ('v, 'n) dataframe" where
  "drop_columns df labels =
     (let missing = filter (\<lambda>l. l \<notin> set (columns df)) labels in
      if missing \<noteq> [] then Inl (KeyError missing)
      else Inr (df\<lparr>cols := filter (\<lambda>(c, s). c \<notin> set labels) (cols df)\<rparr>))"

definition update_inplace :: "('v, 'n) dataframe \<Rightarrow> ('v, 'n) dataframe \<Rightarrow> ('v, 'n) dataframe" where
  "update_inplace self obj = self\<lparr>cols := cols obj, nrows := nrows obj\<rparr>"

definition drop_inplace ::
  "('v, 'n) dataframe \<Rightarrow> string list \<Rightarrow> outcome \<times> ('v, 'n) dataframe" where
  "drop_inplace self labels =
     (case drop_columns self labels of
        Inl e \<Rightarrow> (Raised e, self)
      | Inr obj \<Rightarrow> (Returned, update_inplace self obj))"

text \<open>The rows of a frame, as \<^verbatim>\<open>to_excel\<close> writes them: row \<open>i\<close> takes entry \<open>i\<close> of every column.\<close>

definition to_rows :: "('v, 'n) dataframe \<Rightarrow> ('v, 'n) cell list list" where
  "to_rows df = map (\<lambda>i. map (\<lambda>(c, s). s ! i) (cols df)) [0..<nrows df]"

section \<open>Processors\<close>

text \<open>
  \<^verbatim>\<open>
  class PeopleProcessor(EntityProcessor):
      def process(self, json_data):
          df = pd.DataFrame(json_data)
          df['full_name'] = df['name']
          return df
  \<close>
\<close>

definition PeopleProcessor_process ::
  "('v, 'n) pandas \<Rightarrow> 'v raw_record list \<Rightarrow> error + ('v, 'n) dataframe" where
  "PeopleProcessor_process pd json_data =
     (let df = DataFrame pd json_data in
      case getitem df ''name'' of
        Inl e \<Rightarrow> Inl e
      | Inr s \<Rightarrow> Inr (setitem df ''full_name'' s))"

text \<open>
  \<^verbatim>\<open>
  class PlanetsProcessor(EntityProcessor):
      def process(self, json_data):
          df = pd.DataFrame(json_data)
          df['population'] = pd.to_numeric(df['population'], errors='coerce')
          return df
  \<close>
\<close>

definition PlanetsProcessor_process ::
  "('v, 'n) pandas \<Rightarrow> 'v raw_record list \<Rightarrow> error + ('v, 'n) dataframe" where
  "PlanetsProcessor_process pd json_data =
     (let df = DataFrame pd json_data in
      case getitem df ''population'' of
        Inl e \<Rightarrow> Inl e
      | Inr s \<Rightarrow> Inr (setitem df ''population'' (to_numeric pd s)))"

text \<open>
  \<^verbatim>\<open>
  class FilmsProcessor(EntityProcessor):
      def process(self, json_data):
          df = pd.DataFrame(json_data)
          df['film_titles'] = df['title']
          return df
  \<close>
  In \<^verbatim>\<open>main.py\<close> the new column is \<^verbatim>\<open>film_title\<close>.
\<close>

definition FilmsProcessor_process ::
  "('v, 'n) pandas \<Rightarrow> 'v raw_record list \<Rightarrow> error + ('v, 'n) dataframe" where
  "FilmsProcessor_process pd json_data =
     (let df = DataFrame pd json_data in
      case getitem df ''title'' of
        Inl e \<Rightarrow> Inl e
      | Inr s \<Rightarrow> Inr (setitem df ''film_titles'' s))"

definition main_FilmsProcessor_process ::
  "('v, 'n) pandas \<Rightarrow> 'v raw_record list \<Rightarrow> error + ('v, 'n) dataframe" where
  "main_FilmsProcessor_process pd json_data =
     (let df = DataFrame pd json_data in
      case getitem df ''title'' of
        Inl e \<Rightarrow> Inl e
      | Inr s \<Rightarrow> Inr (setitem df ''film_title'' s))"

text \<open>
  The registered processors are instances of the three concrete classes (the base class
  \<^verbatim>\<open>EntityProcessor\<close> is an interface whose \<^verbatim>\<open>process\<close> is empty). \<open>process\<close> dispatches as
  \<^verbatim>\<open>processor.process(json_data)\<close> does in \<^verbatim>\<open>swapi_manager.py\<close>, \<open>main_process\<close> as in \<^verbatim>\<open>main.py\<close>.
\<close>

datatype processor = PeopleProcessor | PlanetsProcessor | FilmsProcessor

fun process ::
  "('v, 'n) pandas \<Rightarrow> processor \<Rightarrow> 'v raw_record list \<Rightarrow> error + ('v, 'n) dataframe" where
  "process pd PeopleProcessor json_data = PeopleProcessor_process pd json_data"
| "process pd PlanetsProcessor json_data = PlanetsProcessor_process pd json_data"
| "process pd FilmsProcessor json_data = FilmsProcessor_process pd json_data"

fun main_process ::
  "('v, 'n) pandas \<Rightarrow> processor \<Rightarrow> 'v raw_record list \<Rightarrow> error + ('v, 'n) dataframe" where
  "main_process pd PeopleProcessor json_data = PeopleProcessor_process pd json_data"
| "main_process pd PlanetsProcessor json_data = PlanetsProcessor_process pd json_data"
| "main_process pd FilmsProcessor json_data = main_FilmsProcessor_process pd json_data"

section \<open>SWAPIDataManager\<close>

text \<open>
  The two dictionaries of the manager are association lists in insertion order;
  \<^verbatim>\<open>d[k] = v\<close> is \<^const>\<open>AList.update\<close> (replace where the key stands, else append) and
  \<^verbatim>\<open>d.get(k)\<close> is \<^const>\<open>map_of\<close>. \<open>client\<close> is the \<^verbatim>\<open>base_url\<close> of the \<^verbatim>\<open>SWAPIClient\<close>.
\<close>

record ('v, 'n) manager =
  client :: string
  data :: "(string \<times> ('v, 'n) dataframe) list"
  processors :: "(string \<times> processor) list"

definition init :: "string \<Rightarrow> ('v, 'n) manager" where
  "init base_url = \<lparr>client = base_url, data = [], processors = []\<rparr>"

definition register_processor ::
  "('v, 'n) manager \<Rightarrow> string \<Rightarrow> processor \<Rightarrow> ('v, 'n) manager" where
  "register_processor m endpoint p = m\<lparr>processors := AList.update endpoint p (processors m)\<rparr>"

text \<open>
  \<^verbatim>\<open>
  def fetch_entity(self, endpoint):
      json_data = self.client.fetch_json(endpoint)
      processor = self.processors.get(endpoint)
      if processor:
          self.data[endpoint] = processor.process(json_data)
  \<close>
\<close>

definition fetch_entity ::
  "'v server \<Rightarrow> ('v, 'n) pandas \<Rightarrow> ('v, 'n) manager \<Rightarrow> string \<Rightarrow>
   (outcome \<times> ('v, 'n) manager) option" where
  "fetch_entity srv pd m endpoint =
     (case fetch_json srv (client m) endpoint of
        None \<Rightarrow> None
      | Some (Inl e) \<Rightarrow> Some (Raised e, m)
      | Some (Inr json_data) \<Rightarrow>
          (case map_of (processors m) endpoint of
             None \<Rightarrow> Some (Returned, m)
           | Some p \<Rightarrow>
               (case process pd p json_data of
                  Inl e \<Rightarrow> Some (Raised e, m)
                | Inr df \<Rightarrow> Some (Returned, m\<lparr>data := AList.update endpoint df (data m)\<rparr>))))"

text \<open>
  \<^verbatim>\<open>main.py\<close>:
  \<^verbatim>\<open>
  def fetch_entity(self, endpoint):
      if endpoint not in self.processors:
          raise ValueError(...)
      json_data = self.client.fetch_json(endpoint)
      processor = self.processors[endpoint]
      self.data[endpoint] = processor.process(json_data)
  \<close>
\<close>

definition main_fetch_entity ::
  "'v server \<Rightarrow> ('v, 'n) pandas \<Rightarrow> ('v, 'n) manager \<Rightarrow> string \<Rightarrow>
   outcome \<times> ('v, 'n) manager" where
  "main_fetch_entity srv pd m endpoint =
     (case map_of (processors m) endpoint of
        None \<Rightarrow> (Raised (ValueError endpoint), m)
      | Some p \<Rightarrow>
          (case main_fetch_json srv (client m) endpoint of
             Inl e \<Rightarrow> (Raised e, m)
           | Inr json_data \<Rightarrow>
               (case main_process pd p json_data of
                  Inl e \<Rightarrow> (Raised e, m)
                | Inr df \<Rightarrow> (Returned, m\<lparr>data := AList.update endpoint df (data m)\<rparr>))))"

text \<open>
  \<^verbatim>\<open>
  def apply_filter(self, endpoint, columns_to_drop):
      if endpoint in self.data:
          self.data[endpoint].drop(columns=columns_to_drop, inplace=True)
  \<close>
  The frame under \<^verbatim>\<open>endpoint\<close> is the object that \<^verbatim>\<open>drop\<close> works on; after the call the
  dictionary holds that object as the call has left it, however the call ends.
\<close>

definition apply_filter ::
  "('v, 'n) manager \<Rightarrow> string \<Rightarrow> string list \<Rightarrow> outcome \<times> ('v, 'n) manager" where
  "apply_filter m endpoint columns_to_drop =
     (case map_of (data m) endpoint of
        None \<Rightarrow> (Returned, m)
      | Some df \<Rightarrow>
          (case drop_inplace df columns_to_drop of
             (out, df') \<Rightarrow> (out, m\<lparr>data := AList.update endpoint df' (data m)\<rparr>)))"

section \<open>Export\<close>

text \<open>
  A workbook is the list of its sheets in the order of creation, each a grid of cells under its
  title. \<^verbatim>\<open>df.to_excel(writer, sheet_name=..., index=False)\<close> writes the column labels as the
  first row and the rows of the frame below it, from the top left cell. When the workbook has
  a sheet of that title, the cells go into that sheet, over what it holds; otherwise the
  writer makes a new sheet.

  Which title the new sheet gets is the business of the writer's engine, library code that
  the model takes as the parameter \<open>create_sheet\<close>: from the titles in the workbook and the
  title asked for, it gives the title of the new sheet, or the error that the engine raises
  (for an empty title, a forbidden character, a title equal to another up to the case of
  letters; an engine may also give such a title a suffix instead).
\<close>

datatype ('v, 'n) xcell = Header string | Body "('v, 'n) cell"

type_synonym ('v, 'n) workbook = "(string \<times> ('v, 'n) xcell list list) list"

type_synonym engine = "string list \<Rightarrow> string \<Rightarrow> error + string"

definition sheet_cells :: "('v, 'n) dataframe \<Rightarrow> ('v, 'n) xcell list list" where
  "sheet_cells df = map Header (columns df) # map (map Body) (to_rows df)"

fun overlay :: "'a list list \<Rightarrow> 'a list list \<Rightarrow> 'a list list" where
  "overlay [] old = old"
| "overlay (r # rs) [] = r # rs"
| "overlay (r # rs) (q # qs) = (r @ drop (length r) q) # overlay rs qs"

definition to_excel ::
  "engine \<Rightarrow> ('v, 'n) workbook \<Rightarrow> ('v, 'n) dataframe \<Rightarrow> string \<Rightarrow> error + ('v, 'n) workbook"
where
  "to_excel create_sheet writer df sheet_name =
     (case map_of writer sheet_name of
        Some old \<Rightarrow> Inr (AList.update sheet_name (overlay (sheet_cells df) old) writer)
      | None \<Rightarrow>
          (case create_sheet (map fst writer) sheet_name of
             Inl e \<Rightarrow> Inl e
           | Inr title \<Rightarrow> Inr (writer @ [(title, sheet_cells df)])))"

text \<open>
  The loop over \<^verbatim>\<open>self.data.items()\<close>; \<open>name_of\<close> gives the sheet name of an endpoint. An error
  of \<^verbatim>\<open>to_excel\<close> ends the loop and leaves the \<^verbatim>\<open>with\<close> block.
\<close>

fun write_sheets ::
  "engine \<Rightarrow> (string \<Rightarrow> string) \<Rightarrow> (string \<times> ('v, 'n) dataframe) list \<Rightarrow> ('v, 'n) workbook \<Rightarrow>
   error + ('v, 'n) workbook" where
  "write_sheets create_sheet name_of [] writer = Inr writer"
| "write_sheets create_sheet name_of ((endpoint, df) # rest) writer =
     (case to_excel create_sheet writer df (name_of endpoint) of
        Inl e \<Rightarrow> Inl e
      | Inr writer' \<Rightarrow> write_sheets create_sheet name_of rest writer')"

text \<open>
  At the end of the \<^verbatim>\<open>with\<close> block the writer saves the workbook. A workbook without a sheet
  cannot be saved: the openpyxl writer, the one that \<^verbatim>\<open>main.py\<close> imports, raises \<^verbatim>\<open>IndexError\<close>.
\<close>

definition close_writer :: "('v, 'n) workbook \<Rightarrow> error + ('v, 'n) workbook" where
  "close_writer writer = (if writer = [] then Inl IndexError else Inr writer)"

text \<open>
  \<^verbatim>\<open>
  def save_to_excel(self, filename):
      with pd.ExcelWriter(filename) as writer:
          for endpoint, df in self.data.items():
              df.to_excel(writer, sheet_name=endpoint.capitalize(), index=False)
  \<close>
  The result is the workbook written to \<^verbatim>\<open>filename\<close>, or the error raised. \<^verbatim>\<open>str.capitalize\<close>
  follows the case tables of Unicode; it is the parameter \<open>capitalize\<close>. In \<^verbatim>\<open>main.py\<close> the sheet
  name is \<^verbatim>\<open>endpoint\<close> itself.
\<close>

definition save_to_excel ::
  "engine \<Rightarrow> (string \<Rightarrow> string) \<Rightarrow> ('v, 'n) manager \<Rightarrow> error + ('v, 'n) workbook" where
  "save_to_excel create_sheet capitalize m =
     (case write_sheets create_sheet capitalize (data m) [] of
        Inl e \<Rightarrow> Inl e
      | Inr writer \<Rightarrow> close_writer writer)"

definition main_save_to_excel :: "engine \<Rightarrow> ('v, 'n) manager \<Rightarrow> error + ('v, 'n) workbook" where
  "main_save_to_excel create_sheet m =
     (case write_sheets create_sheet (\<lambda>endpoint. endpoint) (data m) [] of
        Inl e \<Rightarrow> Inl e
      | Inr writer \<Rightarrow> close_writer writer)"

text \<open>
  The engine gives every title of the list as it is asked for, one after the other, beside
  the titles \<open>seen\<close>.
\<close>

fun accepted :: "engine \<Rightarrow> string list \<Rightarrow> string list \<Rightarrow> bool" where
  "accepted create_sheet seen [] = True"
| "accepted create_sheet seen (t # ts) =
     (create_sheet seen t = Inr t \<and> accepted create_sheet (seen @ [t]) ts)"

section \<open>Reachable states\<close>

text \<open>
  The states of a manager that the operations of either revision can produce from a fresh
  one, whatever the server answers and whatever pandas does with the values. The first
  argument records the endpoints whose table was stored, in the order of the calls that
  stored them.
\<close>

inductive reachable :: "string list \<Rightarrow> ('v, 'n) manager \<Rightarrow> bool" where
  r_init: "reachable [] (init base_url)"
| r_register: "reachable h m \<Longrightarrow> reachable h (register_processor m endpoint p)"
| r_fetch_stored:
    "reachable h m \<Longrightarrow>
     fetch_entity srv (pd :: ('v, 'n) pandas) m endpoint = Some (Returned, m') \<Longrightarrow>
     map_of (processors m) endpoint \<noteq> None \<Longrightarrow> reachable (h @ [endpoint]) m'"
| r_fetch_skipped:
    "reachable h m \<Longrightarrow>
     fetch_entity srv (pd :: ('v, 'n) pandas) m endpoint = Some (Returned, m') \<Longrightarrow>
     map_of (processors m) endpoint = None \<Longrightarrow> reachable h m'"
| r_fetch_raised:
    "reachable h m \<Longrightarrow>
     fetch_entity srv (pd :: ('v, 'n) pandas) m endpoint = Some (Raised e, m') \<Longrightarrow>
     reachable h m'"
| r_main_fetch_stored:
    "reachable h m \<Longrightarrow>
     main_fetch_entity srv (pd :: ('v, 'n) pandas) m endpoint = (Returned, m') \<Longrightarrow>
     reachable (h @ [endpoint]) m'"
| r_main_fetch_raised:
    "reachable h m \<Longrightarrow>
     main_fetch_entity srv (pd :: ('v, 'n) pandas) m endpoint = (Raised e, m') \<Longrightarrow>
     reachable h m'"
| r_filter:
    "reachable h m \<Longrightarrow> apply_filter m endpoint columns_to_drop = (out, m') \<Longrightarrow>
     reachable h m'"

text \<open>The distinct elements of a list in order of first occurrence.\<close>

definition first_seen :: "string list \<Rightarrow> string list" where
  "first_seen h = fold (\<lambda>k u. add_key u k) h []"

section \<open>Example data\<close>

text \<open>Records and servers on which the definitions are run.\<close>

definition luke :: "json raw_record" where
  "luke = [(''name'', JStr ''Luke''), (''height'', JStr ''172'')]"

definition leia :: "json raw_record" where
  "leia = [(''name'', JStr ''Leia''), (''height'', JStr ''150'')]"

definition han :: "json raw_record" where
  "han = [(''name'', JStr ''Han''), (''mass'', JNum 80)]"

definition anon :: "json raw_record" where
  "anon = [(''height'', JStr ''96'')]"

definition planet :: "string \<Rightarrow> string \<Rightarrow> json raw_record" where
  "planet n p = [(''name'', JStr n), (''population'', JStr p)]"

definition film :: "json raw_record" where
  "film = [(''title'', JStr ''A New Hope''), (''episode_id'', JNum 4)]"

definition three_planets :: "json raw_record list" where
  "three_planets = [planet ''A'' ''1000'', planet ''B'' ''unknown'', planet ''C'' ''42'']"

text \<open>
  People come in three pages of two, three and one records; planets in one page, also under
  the name in capitals; the second page of films answers with status 500. The first page of
  each is served at the first URL of either revision, the planets in capitals excepted.
\<close>

definition swapi :: "json server" where
  "swapi u =
     (if u = ''api/people'' \<or> u = ''api//people/'' then
        Resp 200 \<lparr>results = Some [luke, leia], next = Some ''api/people?page=2''\<rparr>
      else if u = ''api/people?page=2'' then
        Resp 200 \<lparr>results = Some [han, anon, luke], next = Some ''api/people?page=3''\<rparr>
      else if u = ''api/people?page=3'' then
        Resp 200 \<lparr>results = Some [leia], next = None\<rparr>
      else if u = ''api/planets'' \<or> u = ''api//planets/'' \<or> u = ''api/PLANETS'' then
        Resp 200 \<lparr>results = Some three_planets, next = None\<rparr>
      else if u = ''api/films'' then
        Resp 200 \<lparr>results = Some [film], next = Some ''api/films?page=2''\<rparr>
      else if u = ''api//films/'' then
        Resp 200 \<lparr>results = Some [film], next = None\<rparr>
      else if u = ''api/films?page=2'' then
        Resp 500 \<lparr>results = None, next = None\<rparr>
      else Resp 404 \<lparr>results = None, next = None\<rparr>)"


text \<open>
  A stand-in for pandas on JSON values: a column of integers is int64, a column of integers
  with a missing value or a null beside them is float64, every other column keeps its
  values as they are; a float64 holds the float next to an integer (\<open>f64\<close>, for integers that
  a float can hold); \<^verbatim>\<open>pd.to_numeric\<close> reads JSON numbers and strings of decimal digits.
\<close>

function width :: "int \<Rightarrow> nat" where
  "width n = (if n \<le> 0 then 0 else Suc (width (n div 2)))"
  by pat_completeness auto
termination
  by (relation "measure nat") auto

declare width.simps [simp del]

definition f64 :: "int \<Rightarrow> int" where
  "f64 n =
     (if \<bar>n\<bar> \<le> 2 ^ 53 then n
      else
        let a = \<bar>n\<bar>; k = width a - 53; q = a div 2 ^ k; r = a mod 2 ^ k; h = 2 ^ (k - 1);
            q' = (if h < r \<or> (r = h \<and> odd q) then q + 1 else q)
        in sgn n * (q' * 2 ^ k))"

definition example_infer :: "json option list \<Rightarrow> dtype" where
  "example_infer xs =
     (if list_all (\<lambda>x. case x of Some (JNum n) \<Rightarrow> True | _ \<Rightarrow> False) xs then ''int64''
      else if list_all (\<lambda>x. case x of None \<Rightarrow> True | Some JNull \<Rightarrow> True | Some (JNum n) \<Rightarrow> True
                           | _ \<Rightarrow> False) xs \<and>
              list_ex (\<lambda>x. case x of Some (JNum n) \<Rightarrow> True | _ \<Rightarrow> False) xs then ''float64''
      else ''object'')"

definition example_cast :: "dtype \<Rightarrow> json \<Rightarrow> (json, int) cell" where
  "example_cast d v =
     (case v of
        JNum n \<Rightarrow> if d = ''int64'' then Num n else if d = ''float64'' then Num (f64 n) else Val v
      | JNull \<Rightarrow> if d = ''float64'' then NaN else Val v
      | _ \<Rightarrow> Val v)"

definition digit :: "char \<Rightarrow> int option" where
  "digit c = map_of (zip ''0123456789'' [0, 1, 2, 3, 4, 5, 6, 7, 8, 9]) c"

fun digits :: "int \<Rightarrow> string \<Rightarrow> int option" where
  "digits acc [] = Some acc"
| "digits acc (c # cs) = (case digit c of None \<Rightarrow> None | Some d \<Rightarrow> digits (10 * acc + d) cs)"

fun decimal :: "json \<Rightarrow> int option" where
  "decimal (JNum n) = Some n"
| "decimal (JStr s) = (if s = [] then None else digits 0 s)"
| "decimal v = None"

definition example_numeric_dtype :: "int option list \<Rightarrow> dtype" where
  "example_numeric_dtype ps = (if list_all (\<lambda>p. p \<noteq> None) ps then ''int64'' else ''float64'')"

definition example_store :: "dtype \<Rightarrow> int \<Rightarrow> int" where
  "example_store d n = (if d = ''float64'' then f64 n else n)"

definition example_pandas :: "(json, int) pandas" where
  "example_pandas =
     \<lparr>infer_dtype = example_infer, cast = example_cast, to_num = decimal,
      numeric_dtype = example_numeric_dtype, store = example_store\<rparr>"

text \<open>
  An engine that gives every title as it is asked for, and \<^verbatim>\<open>str.capitalize\<close> on strings of
  ASCII characters: the first character in upper case, the others in lower case.
\<close>

definition as_asked :: engine where
  "as_asked titles t = Inr t"

definition upper :: "char \<Rightarrow> char" where
  "upper c =
     (case map_of (zip ''abcdefghijklmnopqrstuvwxyz'' ''ABCDEFGHIJKLMNOPQRSTUVWXYZ'') c of
        None \<Rightarrow> c
      | Some C \<Rightarrow> C)"

definition lower :: "char \<Rightarrow> char" where
  "lower c =
     (case map_of (zip ''ABCDEFGHIJKLMNOPQRSTUVWXYZ'' ''abcdefghijklmnopqrstuvwxyz'') c of
        None \<Rightarrow> c
      | Some d \<Rightarrow> d)"

definition ascii_capitalize :: "string \<Rightarrow> string" where
  "ascii_capitalize s = (case s of [] \<Rightarrow> [] | c # cs \<Rightarrow> upper c # map lower cs)"

text \<open>
  The manager after the three registrations of \<^verbatim>\<open>main()\<close> and a fourth one, of the planets
  under the name in capitals; the table of the planets and the same table without its first
  column; the table of the films as \<^verbatim>\<open>main.py\<close> builds it; the manager that holds the planets,
  the one that holds planets and films, and the one that holds the planets under both names.
\<close>

definition registered :: "(json, int) manager" where
  "registered =
     register_processor
       (register_processor
          (register_processor (register_processor (init ''api/'') ''people'' PeopleProcessor)
             ''planets'' PlanetsProcessor)
          ''films'' FilmsProcessor)
       ''PLANETS'' PlanetsProcessor"

definition planets_table :: "(json, int) dataframe" where
  "planets_table =
     \<lparr>cols = [(''name'', [Val (JStr ''A''), Val (JStr ''B''), Val (JStr ''C'')]),
              (''population'', [Num 1000, NaN, Num 42])],
      nrows = 3\<rparr>"

definition population_only :: "(json, int) dataframe" where
  "population_only = \<lparr>cols = [(''population'', [Num 1000, NaN, Num 42])], nrows = 3\<rparr>"

definition with_planets :: "(json, int) manager" where
  "with_planets = registered\<lparr>data := [(''planets'', planets_table)]\<rparr>"

definition films_table :: "(json, int) dataframe" where
  "films_table =
     \<lparr>cols = [(''title'', [Val (JStr ''A New Hope'')]), (''episode_id'', [Num 4]),
              (''film_title'', [Val (JStr ''A New Hope'')])],
      nrows = 1\<rparr>"

definition planets_and_films :: "(json, int) manager" where
  "planets_and_films =
     registered\<lparr>data := [(''planets'', planets_table), (''films'', films_table)]\<rparr>"

definition two_planets :: "(json, int) manager" where
  "two_planets =
     registered\<lparr>data := [(''planets'', planets_table), (''PLANETS'', population_only)]\<rparr>"

section \<open>What a processor computes, record by record\<close>

text \<open>
  \<open>stored\<close> is the cell of the record \<open>r\<close> in the column \<open>c\<close> of the frame built from
  \<open>json_data\<close>: missing when \<open>r\<close> has no field \<open>c\<close>, else the value of the field in the dtype
  that the column has from all records.

  Each processor reads one column (\<open>source\<close>) and writes one column (\<open>target\<close>, in \<^verbatim>\<open>main.py\<close>
  \<open>main_target\<close>), converting the cell on the way (\<open>convert\<close>: the Planet processor makes it
  a number in the dtype of the numeric column, \<open>population_dtype\<close>). \<open>row_of\<close> is the row that
  the record \<open>r\<close> yields under the columns \<open>cs\<close>: the converted source cell in the target column
  and the record's stored cell in every other column.
\<close>

definition stored ::
  "('v, 'n) pandas \<Rightarrow> 'v raw_record list \<Rightarrow> string \<Rightarrow> 'v raw_record \<Rightarrow> ('v, 'n) cell" where
  "stored pd json_data c r =
     (case map_of r c of
        None \<Rightarrow> NaN
      | Some v \<Rightarrow> cast pd (infer_dtype pd (field_values json_data c)) v)"

definition population_dtype :: "('v, 'n) pandas \<Rightarrow> 'v raw_record list \<Rightarrow> dtype" where
  "population_dtype pd json_data =
     numeric_dtype pd (map (\<lambda>r. parse pd (stored pd json_data ''population'' r)) json_data)"

fun source :: "processor \<Rightarrow> string" where
  "source PeopleProcessor = ''name''"
| "source PlanetsProcessor = ''population''"
| "source FilmsProcessor = ''title''"

fun target :: "processor \<Rightarrow> string" where
  "target PeopleProcessor = ''full_name''"
| "target PlanetsProcessor = ''population''"
| "target FilmsProcessor = ''film_titles''"

fun main_target :: "processor \<Rightarrow> string" where
  "main_target PeopleProcessor = ''full_name''"
| "main_target PlanetsProcessor = ''population''"
| "main_target FilmsProcessor = ''film_title''"

fun convert ::
  "('v, 'n) pandas \<Rightarrow> processor \<Rightarrow> 'v raw_record list \<Rightarrow> ('v, 'n) cell \<Rightarrow> ('v, 'n) cell" where
  "convert pd PeopleProcessor json_data x = x"
| "convert pd PlanetsProcessor json_data x = numeric_cell pd (population_dtype pd json_data) x"
| "convert pd FilmsProcessor json_data x = x"

definition row_of ::
  "('v, 'n) pandas \<Rightarrow> processor \<Rightarrow> string \<Rightarrow> 'v raw_record list \<Rightarrow> string list \<Rightarrow>
   'v raw_record \<Rightarrow> ('v, 'n) cell list"
where
  "row_of pd p t json_data cs r =
     map (\<lambda>c. if c = t then convert pd p json_data (stored pd json_data (source p) r)
              else stored pd json_data c r) cs"

text \<open>
  The frame with the columns of the records and the column \<open>t\<close>, whose column \<open>t\<close> holds
  \<open>g\<close> of the stored cell \<open>s\<close> of each record.
\<close>

definition derived ::
  "('v, 'n) pandas \<Rightarrow> string \<Rightarrow> (('v, 'n) cell \<Rightarrow> ('v, 'n) cell) \<Rightarrow> string \<Rightarrow>
   'v raw_record list \<Rightarrow> ('v, 'n) dataframe"
where
  "derived pd t g s rs =
     \<lparr>cols = map (\<lambda>c. (c, map (\<lambda>r. if c = t then g (stored pd rs s r) else stored pd rs c r) rs))
               (add_key (all_keys rs) t),
      nrows = length rs\<rparr>"

section \<open>Properties: pagination\<close>

lemma fetch_loop_chain:
  "chain srv url pages final \<Longrightarrow>
   fetch_loop srv url all_data = fetch_loop srv final (all_data @ concat pages)"
proof (induction pages arbitrary: url all_data)
  case Nil
  then show ?case by simp
next
  case (Cons rs rest)
  from Cons.prems obtain u st body where u: "url = Some u" "u \<noteq> []"
    and r: "srv u = Resp st body" "\<not> raises_for_status st" "results body = Some rs"
    and c: "chain srv (next body) rest final"
    by (auto split: option.splits response.splits)
  have "fetch_loop srv url all_data = fetch_loop srv (next body) (all_data @ rs)"
    using u r by (subst fetch_loop.simps) simp
  also have "\<dots> = fetch_loop srv final ((all_data @ rs) @ concat rest)"
    by (rule Cons.IH [OF c])
  finally show ?case by simp
qed


text \<open>
  C1 (as amended). In \<^verbatim>\<open>swapi_manager.py\<close>, when the server answers the first URL
  \<open>base_url + endpoint\<close> with a chain of pages that ends in a page whose \<open>next\<close> is absent or
  null, \<open>fetch_json\<close> returns, and its result is the concatenation of the \<open>results\<close> of all
  pages, in page order and in the order within each page. In \<^verbatim>\<open>main.py\<close>, \<open>fetch_json\<close> makes
  the one request to \<open>base_url/endpoint/\<close> and returns the \<open>results\<close> of that page only,
  whatever its \<open>next\<close> is.
\<close>

text \<open>
  C1 (as amended). In \<^verbatim>\<open>swapi_manager.py\<close>, when the server answers the first URL
  \<open>base_url + endpoint\<close> with a chain of pages that ends in a page whose \<open>next\<close> is absent or
  null, \<open>fetch_json\<close> returns, and its result is the concatenation of the \<open>results\<close> of all
  pages, in page order and in the order within each page. In \<^verbatim>\<open>main.py\<close>, \<open>fetch_json\<close> makes
  the one request to \<open>base_url/endpoint/\<close> and returns the \<open>results\<close> of that page only,
  whatever its \<open>next\<close> is.
\<close>

theorem fetch_json_pagination:
  "(chain srv (Some (base_url @ endpoint)) pages None \<longrightarrow>
      fetch_json srv base_url endpoint = Some (Inr (concat pages))) \<and>
   (chain srv (Some (base_url @ ''/'' @ endpoint @ ''/'')) (rs # rest) final \<longrightarrow>
      main_fetch_json srv base_url endpoint = Inr rs)"
proof (intro conjI impI)
  assume "chain srv (Some (base_url @ endpoint)) pages None"
  then have "fetch_loop srv (Some (base_url @ endpoint)) [] = fetch_loop srv None ([] @ concat pages)"
    by (rule fetch_loop_chain)
  then show "fetch_json srv base_url endpoint = Some (Inr (concat pages))"
    by (simp add: fetch_json_def fetch_loop.simps)
next
  assume "chain srv (Some (base_url @ ''/'' @ endpoint @ ''/'')) (rs # rest) final"
  then show "main_fetch_json srv base_url endpoint = Inr rs"
    by (auto simp: main_fetch_json_def split: response.splits)
qed

theorem fetch_json_pagination_witness:
  "chain swapi (Some (''api/'' @ ''people'')) [[luke, leia], [han, anon, luke], [leia]] None \<and>
   fetch_json swapi ''api/'' ''people'' = Some (Inr [luke, leia, han, anon, luke, leia]) \<and>
   chain swapi (Some (''api/'' @ ''/'' @ ''people'' @ ''/''))
     ([luke, leia] # [[han, anon, luke], [leia]]) None \<and>
   main_fetch_json swapi ''api/'' ''people'' = Inr [luke, leia]"
proof -
  have c1: "chain swapi (Some (''api/'' @ ''people'')) [[luke, leia], [han, anon, luke], [leia]] None"
    by (simp add: swapi_def raises_for_status_def)
  have c2: "chain swapi (Some (''api/'' @ ''/'' @ ''people'' @ ''/''))
      ([luke, leia] # [[han, anon, luke], [leia]]) None"
    by (simp add: swapi_def raises_for_status_def)
  from fetch_json_pagination [of swapi "''api/''" "''people''"
      "[[luke, leia], [han, anon, luke], [leia]]" "[luke, leia]" "[[han, anon, luke], [leia]]" None]
  show ?thesis using c1 c2 by simp
qed

text \<open>
  C1 as stated fails for \<open>fetch_json\<close> of \<^verbatim>\<open>main.py\<close>: on a chain of three pages it returns
  the first page, not the concatenation of the three.
\<close>

text \<open>
  C1 as stated fails for \<open>fetch_json\<close> of \<^verbatim>\<open>main.py\<close>: on a chain of three pages it returns
  the first page, not the concatenation of the three.
\<close>

theorem main_fetch_json_first_page_only:
  "chain swapi (Some (''api/'' @ ''/'' @ ''people'' @ ''/''))
     [[luke, leia], [han, anon, luke], [leia]] None \<and>
   main_fetch_json swapi ''api/'' ''people'' \<noteq> Inr (concat [[luke, leia], [han, anon, luke], [leia]])"
  by (simp add: swapi_def raises_for_status_def main_fetch_json_def)

section \<open>Properties: frames\<close>

lemma fold_add_key_set: "set (fold (\<lambda>k u. add_key u k) ks acc) = set acc \<union> set ks"
  by (induction ks arbitrary: acc) (auto simp: add_key_def)

lemma fold_add_key_distinct: "distinct acc \<Longrightarrow> distinct (fold (\<lambda>k u. add_key u k) ks acc)"
  by (induction ks arbitrary: acc) (auto simp: add_key_def)

lemma all_keys_fold_set:
  "set (fold (\<lambda>r uniques. fold (\<lambda>k u. add_key u k) (map fst r) uniques) rs acc) =
   set acc \<union> (\<Union>r\<in>set rs. fst ` set r)"
  by (induction rs arbitrary: acc) (auto simp: fold_add_key_set)

lemma all_keys_fold_distinct:
  "distinct acc \<Longrightarrow>
   distinct (fold (\<lambda>r uniques. fold (\<lambda>k u. add_key u k) (map fst r) uniques) rs acc)"
  by (induction rs arbitrary: acc) (auto simp: fold_add_key_distinct)

lemma set_all_keys: "set (all_keys rs) = (\<Union>r\<in>set rs. fst ` set r)"
  by (simp add: all_keys_def all_keys_fold_set)

lemma distinct_all_keys: "distinct (all_keys rs)"
  by (simp add: all_keys_def all_keys_fold_distinct)

lemma set_add_key: "set (add_key ks k) = insert k (set ks)"
  by (auto simp: add_key_def)

lemma map_of_frame:
  "map_of (map (\<lambda>c. (c, f c)) ks) c = (if c \<in> set ks then Some (f c) else None)"
  by (induction ks) auto

lemma update_frame:
  "distinct ks \<Longrightarrow>
   AList.update t (g t) (map (\<lambda>c. (c, f c)) ks) =
   map (\<lambda>c. (c, if c = t then g t else f c)) (add_key ks t)"
  by (induction ks) (auto simp: add_key_def)

lemma to_rows_frame:
  assumes "cols df = map (\<lambda>c. (c, map (\<lambda>r. f r c) rs)) ks" and "nrows df = length rs"
  shows "to_rows df = map (\<lambda>r. map (f r) ks) rs"
proof -
  have "to_rows df = map (\<lambda>i. map (\<lambda>c. map (\<lambda>r. f r c) rs ! i) ks) [0..<length rs]"
    by (simp add: to_rows_def assms comp_def)
  also have "\<dots> = map (\<lambda>i. map (f (rs ! i)) ks) [0..<length rs]"
    by (rule map_cong) simp_all
  also have "\<dots> = map (\<lambda>r. map (f r) ks) (map (nth rs) [0..<length rs])"
    by (simp add: comp_def)
  also have "\<dots> = map (\<lambda>r. map (f r) ks) rs"
    by (simp only: map_nth)
  finally show ?thesis .
qed

lemma column_stored: "column pd (field_values rs c) = map (stored pd rs c) rs"
  by (auto simp: column_def field_values_def stored_def split: option.split)

lemma getitem_DataFrame:
  "getitem (DataFrame pd rs) c =
     (if c \<in> set (all_keys rs) then Inr (map (stored pd rs c) rs) else Inl (KeyError [c]))"
  by (simp add: getitem_def DataFrame_def map_of_frame column_stored)

lemma setitem_DataFrame:
  "setitem (DataFrame pd rs) t (map (\<lambda>r. g (stored pd rs s r)) rs) = derived pd t g s rs"
  using update_frame [OF distinct_all_keys, of t "\<lambda>c. map (\<lambda>r. g (stored pd rs s r)) rs"
      "\<lambda>c. map (\<lambda>r. stored pd rs c r) rs" rs]
  by (simp add: setitem_def DataFrame_def derived_def column_stored)

lemma to_numeric_stored:
  "to_numeric pd (map (stored pd rs ''population'') rs) =
   map (\<lambda>r. numeric_cell pd (population_dtype pd rs) (stored pd rs ''population'' r)) rs"
  by (simp add: to_numeric_def population_dtype_def comp_def)

lemma columns_derived: "columns (derived pd t g s rs) = add_key (all_keys rs) t"
  by (simp add: columns_def derived_def comp_def)

lemma nrows_derived: "nrows (derived pd t g s rs) = length rs"
  by (simp add: derived_def)


lemma to_rows_derived:
  "to_rows (derived pd t g s rs) =
   map (\<lambda>r. map (\<lambda>c. if c = t then g (stored pd rs s r) else stored pd rs c r)
               (columns (derived pd t g s rs))) rs"
proof -
  have "columns (derived pd t g s rs) = add_key (all_keys rs) t"
    by (rule columns_derived)
  moreover have "to_rows (derived pd t g s rs) =
      map (\<lambda>r. map (\<lambda>c. if c = t then g (stored pd rs s r) else stored pd rs c r)
                  (add_key (all_keys rs) t)) rs"
    by (rule to_rows_frame) (simp_all add: derived_def)
  ultimately show ?thesis by simp
qed

lemma PeopleProcessor_process_eq:
  "PeopleProcessor_process pd rs =
     (if ''name'' \<in> set (all_keys rs) then Inr (derived pd ''full_name'' (\<lambda>x. x) ''name'' rs)
      else Inl (KeyError [''name'']))"
  by (simp add: PeopleProcessor_process_def getitem_DataFrame
      setitem_DataFrame [where g = "\<lambda>x. x", simplified])

lemma PlanetsProcessor_process_eq:
  "PlanetsProcessor_process pd rs =
     (if ''population'' \<in> set (all_keys rs)
      then Inr (derived pd ''population'' (numeric_cell pd (population_dtype pd rs)) ''population'' rs)
      else Inl (KeyError [''population'']))"
  by (simp add: PlanetsProcessor_process_def getitem_DataFrame to_numeric_stored
      setitem_DataFrame [where g = "numeric_cell pd (population_dtype pd rs)"])

lemma FilmsProcessor_process_eq:
  "FilmsProcessor_process pd rs =
     (if ''title'' \<in> set (all_keys rs) then Inr (derived pd ''film_titles'' (\<lambda>x. x) ''title'' rs)
      else Inl (KeyError [''title'']))"
  by (simp add: FilmsProcessor_process_def getitem_DataFrame
      setitem_DataFrame [where g = "\<lambda>x. x", simplified])

lemma main_FilmsProcessor_process_eq:
  "main_FilmsProcessor_process pd rs =
     (if ''title'' \<in> set (all_keys rs) then Inr (derived pd ''film_title'' (\<lambda>x. x) ''title'' rs)
      else Inl (KeyError [''title'']))"
  by (simp add: main_FilmsProcessor_process_def getitem_DataFrame
      setitem_DataFrame [where g = "\<lambda>x. x", simplified])

lemma convert_eta:
  "convert pd PeopleProcessor rs = (\<lambda>x. x)" "convert pd FilmsProcessor rs = (\<lambda>x. x)"
  "convert pd PlanetsProcessor rs = numeric_cell pd (population_dtype pd rs)"
  by (simp_all add: fun_eq_iff)

lemma process_eq:
  "process pd p rs =
     (if source p \<in> set (all_keys rs)
      then Inr (derived pd (target p) (convert pd p rs) (source p) rs)
      else Inl (KeyError [source p]))"
  by (cases p)
    (simp_all add: PeopleProcessor_process_eq PlanetsProcessor_process_eq FilmsProcessor_process_eq
      convert_eta)

lemma main_process_eq:
  "main_process pd p rs =
     (if source p \<in> set (all_keys rs)
      then Inr (derived pd (main_target p) (convert pd p rs) (source p) rs)
      else Inl (KeyError [source p]))"
  by (cases p)
    (simp_all add: PeopleProcessor_process_eq PlanetsProcessor_process_eq
      main_FilmsProcessor_process_eq convert_eta)

section \<open>Properties: the example run\<close>

lemma example_fields:
  "infer_dtype example_pandas = example_infer" "cast example_pandas = example_cast"
  "to_num example_pandas = decimal" "numeric_dtype example_pandas = example_numeric_dtype"
  "store example_pandas = example_store"
  by (simp_all add: example_pandas_def)

lemmas example_defs =
  example_fields example_infer_def example_cast_def example_numeric_dtype_def
  example_store_def f64_def digit_def

lemmas frame_defs =
  DataFrame_def all_keys_def add_key_def column_def field_values_def getitem_def setitem_def
  to_numeric_def numeric_cell_def parse_def

lemma example_keys:
  "all_keys [luke, han] = [''name'', ''height'', ''mass'']"
  "all_keys three_planets = [''name'', ''population'']"
  "all_keys [film] = [''title'', ''episode_id'']"
  by (simp_all add: all_keys_def add_key_def luke_def han_def three_planets_def planet_def film_def)

lemma stored_luke_han:
  "stored example_pandas [luke, han] ''name'' luke = Val (JStr ''Luke'')"
  "stored example_pandas [luke, han] ''name'' han = Val (JStr ''Han'')"
  "stored example_pandas [luke, han] ''height'' luke = Val (JStr ''172'')"
  "stored example_pandas [luke, han] ''height'' han = NaN"
  "stored example_pandas [luke, han] ''mass'' luke = NaN"
  "stored example_pandas [luke, han] ''mass'' han = Num 80"
  by (simp_all add: stored_def field_values_def luke_def han_def example_defs)

lemma stored_planets:
  "stored example_pandas three_planets ''name'' (planet n p) = Val (JStr n)"
  "stored example_pandas three_planets ''population'' (planet n p) = Val (JStr p)"
  by (simp_all add: stored_def field_values_def three_planets_def planet_def example_defs)

lemma population_dtype_planets: "population_dtype example_pandas three_planets = ''float64''"
  by (simp add: population_dtype_def parse_def stored_def field_values_def three_planets_def
      planet_def example_defs)

lemma stored_film:
  "stored example_pandas [film] ''title'' film = Val (JStr ''A New Hope'')"
  "stored example_pandas [film] ''episode_id'' film = Num 4"
  by (simp_all add: stored_def field_values_def film_def example_defs)

lemma row_planets:
  "row_of example_pandas PlanetsProcessor ''population'' three_planets [''name'', ''population'']
     (planet n p) =
   [Val (JStr n), case decimal (JStr p) of None \<Rightarrow> NaN | Some k \<Rightarrow> Num (f64 k)]"
  by (simp add: row_of_def stored_planets population_dtype_planets numeric_cell_def parse_def
      example_fields example_store_def split: option.split)

lemma row_people:
  "row_of example_pandas PeopleProcessor ''full_name'' [luke, han]
     [''name'', ''height'', ''mass'', ''full_name''] han =
   [Val (JStr ''Han''), NaN, Num 80, Val (JStr ''Han'')]"
  by (simp add: row_of_def stored_luke_han)

lemma row_film:
  "row_of example_pandas FilmsProcessor ''film_titles'' [film]
     [''title'', ''episode_id'', ''film_titles''] film =
   [Val (JStr ''A New Hope''), Num 4, Val (JStr ''A New Hope'')]"
  "row_of example_pandas FilmsProcessor ''film_title'' [film]
     [''title'', ''episode_id'', ''film_title''] film =
   [Val (JStr ''A New Hope''), Num 4, Val (JStr ''A New Hope'')]"
  by (simp_all add: row_of_def stored_film)

lemma planets_table_eq:
  "PlanetsProcessor_process example_pandas three_planets = Inr planets_table"
  by (simp add: PlanetsProcessor_process_def frame_defs example_defs three_planets_def planet_def
      planets_table_def)

lemma films_table_eq: "main_FilmsProcessor_process example_pandas [film] = Inr films_table"
  by (simp add: main_FilmsProcessor_process_def frame_defs example_defs film_def films_table_def)

text \<open>
  The stand-in for pandas does what pandas is seen to do with numbers: beside a value that
  is not a number the column is float64 and an integer above \<open>2^53\<close> is rounded, without one
  the integers are exact, and a JSON null in a column of numbers is the missing value.
\<close>

lemma rounded_beside_missing:
  "PlanetsProcessor_process example_pandas
     [[(''population'', JStr ''9007199254740993'')], [(''population'', JStr ''unknown'')]] =
   Inr \<lparr>cols = [(''population'', [Num 9007199254740992, NaN])], nrows = 2\<rparr>"
  by code_simp

lemma exact_without_missing:
  "PlanetsProcessor_process example_pandas
     [[(''population'', JStr ''9007199254740993'')], [(''population'', JStr ''42'')]] =
   Inr \<lparr>cols = [(''population'', [Num 9007199254740993, Num 42])], nrows = 2\<rparr>"
  by code_simp

lemma null_is_missing:
  "PeopleProcessor_process example_pandas
     [[(''name'', JStr ''X''), (''mass'', JNum 80)], [(''name'', JStr ''Y''), (''mass'', JNull)]] =
   Inr \<lparr>cols = [(''name'', [Val (JStr ''X''), Val (JStr ''Y'')]), (''mass'', [Num 80, NaN]),
               (''full_name'', [Val (JStr ''X''), Val (JStr ''Y'')])],
        nrows = 2\<rparr>"
  by code_simp

lemma fetch_json_planets: "fetch_json swapi ''api/'' ''planets'' = Some (Inr three_planets)"
  by (simp add: fetch_json_def fetch_loop.simps swapi_def raises_for_status_def)

lemma fetch_json_PLANETS: "fetch_json swapi ''api/'' ''PLANETS'' = Some (Inr three_planets)"
  by (simp add: fetch_json_def fetch_loop.simps swapi_def raises_for_status_def)

lemma registered_fields:
  "client registered = ''api/''" "data registered = []"
  "processors registered =
     [(''people'', PeopleProcessor), (''planets'', PlanetsProcessor), (''films'', FilmsProcessor),
      (''PLANETS'', PlanetsProcessor)]"
  by (simp_all add: registered_def register_processor_def init_def)

lemma fetch_planets:
  "fetch_entity swapi example_pandas registered ''planets'' = Some (Returned, with_planets)"
  by (simp add: fetch_entity_def registered_fields fetch_json_planets planets_table_eq
      with_planets_def)

lemma fetch_PLANETS:
  "fetch_entity swapi example_pandas with_planets ''PLANETS'' =
     Some (Returned, registered\<lparr>data := [(''planets'', planets_table), (''PLANETS'', planets_table)]\<rparr>)"
  by (simp add: fetch_entity_def with_planets_def registered_fields fetch_json_PLANETS
      planets_table_eq)

lemma drop_name:
  "drop_inplace planets_table [''name''] = (Returned, population_only)"
  by (simp add: drop_inplace_def drop_columns_def update_inplace_def columns_def planets_table_def
      population_only_def)

lemma drop_unknown:
  "drop_inplace planets_table [''name'', ''z''] = (Raised (KeyError [''z'']), planets_table)"
  "drop_inplace planets_table [''z''] = (Raised (KeyError [''z'']), planets_table)"
  by (simp_all add: drop_inplace_def drop_columns_def columns_def planets_table_def)

lemma filter_PLANETS:
  "apply_filter (registered\<lparr>data := [(''planets'', planets_table), (''PLANETS'', planets_table)]\<rparr>)
     ''PLANETS'' [''name''] = (Returned, two_planets)"
  by (simp add: apply_filter_def drop_name two_planets_def)

lemma refetch_PLANETS:
  "fetch_entity swapi example_pandas two_planets ''PLANETS'' =
     Some (Returned, registered\<lparr>data := [(''planets'', planets_table), (''PLANETS'', planets_table)]\<rparr>)"
  by (simp add: fetch_entity_def two_planets_def registered_fields fetch_json_PLANETS
      planets_table_eq)

lemma main_fetch_films:
  "main_fetch_entity swapi example_pandas with_planets ''films'' = (Returned, planets_and_films)"
  by (simp add: main_fetch_entity_def main_fetch_json_def with_planets_def registered_fields
      swapi_def raises_for_status_def films_table_eq planets_and_films_def)

lemma registered_reachable: "reachable [] registered"
  unfolding registered_def by (intro r_register r_init)

lemma with_planets_reachable: "reachable [''planets''] with_planets"
  using r_fetch_stored [OF registered_reachable fetch_planets]
  by (simp add: registered_fields)

lemma two_planets_reachable: "reachable [''planets'', ''PLANETS''] two_planets"
proof -
  have "reachable ([''planets''] @ [''PLANETS''])
      (registered\<lparr>data := [(''planets'', planets_table), (''PLANETS'', planets_table)]\<rparr>)"
    by (rule r_fetch_stored [OF with_planets_reachable fetch_PLANETS])
      (simp add: with_planets_def registered_fields)
  then show ?thesis
    using r_filter [OF _ filter_PLANETS] by simp
qed

lemma planets_and_films_reachable: "reachable [''planets'', ''films''] planets_and_films"
  using r_main_fetch_stored [OF with_planets_reachable main_fetch_films] by simp

lemma to_rows_planets:
  "to_rows planets_table =
     [[Val (JStr ''A''), Num 1000], [Val (JStr ''B''), NaN], [Val (JStr ''C''), Num 42]]"
  "to_rows population_only = [[Num 1000], [NaN], [Num 42]]"
  "to_rows films_table = [[Val (JStr ''A New Hope''), Num 4, Val (JStr ''A New Hope'')]]"
  by (simp_all add: to_rows_def planets_table_def population_only_def films_table_def upt_rec
      numeral_3_eq_3)

lemma with_planets_store:
  "map_of (data with_planets) ''planets'' = Some planets_table"
  "map_of (data with_planets) ''people'' = None"
  "columns planets_table = [''name'', ''population'']"
  by (simp_all add: with_planets_def columns_def planets_table_def)

lemma example_titles:
  "ascii_capitalize ''planets'' = ''Planets''" "ascii_capitalize ''films'' = ''Films''"
  "ascii_capitalize ''PLANETS'' = ''Planets''"
  by (simp_all add: ascii_capitalize_def upper_def lower_def)

lemma example_columns:
  "columns planets_table = [''name'', ''population'']"
  "columns population_only = [''population'']"
  "columns films_table = [''title'', ''episode_id'', ''film_title'']"
  by (simp_all add: columns_def planets_table_def population_only_def films_table_def)

section \<open>Properties: processors\<close>







text \<open>
  C6. Whenever a processor (Person, Planet or Film, of either revision) returns a table for
  a record sequence, the table has as many rows as the sequence has records; its columns are
  the fields of the records in order of first appearance and the target column of the
  processor, so no field is dropped; and row \<open>i\<close> is the row that record \<open>i\<close> yields, each cell
  in the dtype of its column: no row is dropped, added or moved.
\<close>

theorem process_preserves_rows:
  "((\<exists>df. process pd p rs = Inr df) = (\<exists>r\<in>set rs. source p \<in> fst ` set r)) \<and>
   ((\<exists>df. main_process pd p rs = Inr df) = (\<exists>r\<in>set rs. source p \<in> fst ` set r)) \<and>
   (process pd p rs = Inr df \<longrightarrow>
      nrows df = length rs \<and> length (to_rows df) = length rs \<and>
      columns df = add_key (all_keys rs) (target p) \<and>
      set (columns df) = (\<Union>r\<in>set rs. fst ` set r) \<union> {target p} \<and>
      (\<forall>i<length rs. to_rows df ! i = row_of pd p (target p) rs (columns df) (rs ! i))) \<and>
   (main_process pd p rs = Inr df' \<longrightarrow>
      nrows df' = length rs \<and> length (to_rows df') = length rs \<and>
      columns df' = add_key (all_keys rs) (main_target p) \<and>
      set (columns df') = (\<Union>r\<in>set rs. fst ` set r) \<union> {main_target p} \<and>
      (\<forall>i<length rs. to_rows df' ! i = row_of pd p (main_target p) rs (columns df') (rs ! i)))"
proof (intro conjI impI)
  show "(\<exists>df. process pd p rs = Inr df) = (\<exists>r\<in>set rs. source p \<in> fst ` set r)"
    by (simp add: process_eq set_all_keys)
  show "(\<exists>df. main_process pd p rs = Inr df) = (\<exists>r\<in>set rs. source p \<in> fst ` set r)"
    by (simp add: main_process_eq set_all_keys)
next
  assume "process pd p rs = Inr df"
  then have df: "df = derived pd (target p) (convert pd p rs) (source p) rs"
    by (simp add: process_eq split: if_splits)
  show "nrows df = length rs" by (simp add: df nrows_derived)
  show "length (to_rows df) = length rs" by (simp add: df to_rows_derived)
  show "columns df = add_key (all_keys rs) (target p)" by (simp add: df columns_derived)
  show "set (columns df) = (\<Union>r\<in>set rs. fst ` set r) \<union> {target p}"
    by (simp add: df columns_derived set_add_key set_all_keys)
  show "\<forall>i<length rs. to_rows df ! i = row_of pd p (target p) rs (columns df) (rs ! i)"
    by (simp add: df to_rows_derived row_of_def)
next
  assume "main_process pd p rs = Inr df'"
  then have df: "df' = derived pd (main_target p) (convert pd p rs) (source p) rs"
    by (simp add: main_process_eq split: if_splits)
  show "nrows df' = length rs" by (simp add: df nrows_derived)
  show "length (to_rows df') = length rs" by (simp add: df to_rows_derived)
  show "columns df' = add_key (all_keys rs) (main_target p)" by (simp add: df columns_derived)
  show "set (columns df') = (\<Union>r\<in>set rs. fst ` set r) \<union> {main_target p}"
    by (simp add: df columns_derived set_add_key set_all_keys)
  show "\<forall>i<length rs. to_rows df' ! i = row_of pd p (main_target p) rs (columns df') (rs ! i)"
    by (simp add: df to_rows_derived row_of_def)
qed

theorem process_preserves_rows_witness:
  "(\<exists>df. process example_pandas PeopleProcessor [luke, han] = Inr df \<and>
      columns df = [''name'', ''height'', ''mass'', ''full_name''] \<and> length (to_rows df) = 2 \<and>
      to_rows df ! 1 = [Val (JStr ''Han''), NaN, Num 80, Val (JStr ''Han'')]) \<and>
   (\<exists>df. process example_pandas PlanetsProcessor three_planets = Inr df \<and>
      columns df = [''name'', ''population''] \<and> nrows df = 3 \<and> length (to_rows df) = 3 \<and>
      to_rows df ! 1 = [Val (JStr ''B''), NaN] \<and> to_rows df ! 2 = [Val (JStr ''C''), Num 42]) \<and>
   (\<exists>df. process example_pandas FilmsProcessor [film] = Inr df \<and>
      columns df = [''title'', ''episode_id'', ''film_titles''] \<and>
      to_rows df ! 0 = [Val (JStr ''A New Hope''), Num 4, Val (JStr ''A New Hope'')]) \<and>
   (\<exists>df. main_process example_pandas FilmsProcessor [film] = Inr df \<and>
      columns df = [''title'', ''episode_id'', ''film_title''] \<and>
      to_rows df ! 0 = [Val (JStr ''A New Hope''), Num 4, Val (JStr ''A New Hope'')])"
proof -
  let ?pd = example_pandas
  let ?a = "derived ?pd ''full_name'' (\<lambda>x. x) ''name'' [luke, han]"
  let ?b = "derived ?pd ''population'' (numeric_cell ?pd (population_dtype ?pd three_planets))
      ''population'' three_planets"
  let ?c = "derived ?pd ''film_titles'' (\<lambda>x. x) ''title'' [film]"
  let ?d = "derived ?pd ''film_title'' (\<lambda>x. x) ''title'' [film]"
  have run: "process ?pd PeopleProcessor [luke, han] = Inr ?a"
    "process ?pd PlanetsProcessor three_planets = Inr ?b"
    "process ?pd FilmsProcessor [film] = Inr ?c"
    "main_process ?pd FilmsProcessor [film] = Inr ?d"
    by (simp_all add: PeopleProcessor_process_eq PlanetsProcessor_process_eq
        FilmsProcessor_process_eq main_FilmsProcessor_process_eq example_keys)
  have len: "length three_planets = 3" "three_planets ! 1 = planet ''B'' ''unknown''"
    "three_planets ! 2 = planet ''C'' ''42''"
    by (simp_all add: three_planets_def)
  have dec: "decimal (JStr ''unknown'') = None" "decimal (JStr ''42'') = Some 42" "f64 42 = 42"
    by (simp_all add: digit_def f64_def)
  from process_preserves_rows [of ?pd PeopleProcessor "[luke, han]" ?a ?a] run(1)
  have a: "columns ?a = add_key (all_keys [luke, han]) ''full_name''"
    "length (to_rows ?a) = length [luke, han]"
    "\<forall>i<length [luke, han]. to_rows ?a ! i =
       row_of ?pd PeopleProcessor ''full_name'' [luke, han] (columns ?a) ([luke, han] ! i)"
    by simp_all
  from process_preserves_rows [of ?pd PlanetsProcessor three_planets ?b ?b] run(2)
  have b: "columns ?b = add_key (all_keys three_planets) ''population''"
    "nrows ?b = length three_planets" "length (to_rows ?b) = length three_planets"
    "\<forall>i<length three_planets. to_rows ?b ! i =
       row_of ?pd PlanetsProcessor ''population'' three_planets (columns ?b) (three_planets ! i)"
    by simp_all
  from process_preserves_rows [of ?pd FilmsProcessor "[film]" ?c ?d] run(3) run(4)
  have c: "columns ?c = add_key (all_keys [film]) ''film_titles''"
    "\<forall>i<length [film]. to_rows ?c ! i =
       row_of ?pd FilmsProcessor ''film_titles'' [film] (columns ?c) ([film] ! i)"
    and d: "columns ?d = add_key (all_keys [film]) ''film_title''"
    "\<forall>i<length [film]. to_rows ?d ! i =
       row_of ?pd FilmsProcessor ''film_title'' [film] (columns ?d) ([film] ! i)"
    by simp_all
  have ca: "columns ?a = [''name'', ''height'', ''mass'', ''full_name'']"
    and cb: "columns ?b = [''name'', ''population'']"
    and cc: "columns ?c = [''title'', ''episode_id'', ''film_titles'']"
    and cd: "columns ?d = [''title'', ''episode_id'', ''film_title'']"
    by (simp_all add: a(1) b(1) c(1) d(1) example_keys add_key_def)
  have "to_rows ?a ! 1 =
      row_of ?pd PeopleProcessor ''full_name'' [luke, han] (columns ?a) ([luke, han] ! 1)"
    by (rule a(3) [rule_format]) simp
  then have ra: "to_rows ?a ! 1 = [Val (JStr ''Han''), NaN, Num 80, Val (JStr ''Han'')]"
    by (simp only: ca row_people nth_Cons_0 nth_Cons_Suc One_nat_def)
  have "to_rows ?b ! 1 =
      row_of ?pd PlanetsProcessor ''population'' three_planets (columns ?b) (three_planets ! 1)"
    "to_rows ?b ! 2 =
      row_of ?pd PlanetsProcessor ''population'' three_planets (columns ?b) (three_planets ! 2)"
    by (rule b(4) [rule_format], simp add: len(1))+
  then have rb: "to_rows ?b ! 1 = [Val (JStr ''B''), NaN]"
    "to_rows ?b ! 2 = [Val (JStr ''C''), Num 42]"
    by (simp_all only: cb len row_planets dec option.case)
  have "to_rows ?c ! 0 = row_of ?pd FilmsProcessor ''film_titles'' [film] (columns ?c) ([film] ! 0)"
    "to_rows ?d ! 0 = row_of ?pd FilmsProcessor ''film_title'' [film] (columns ?d) ([film] ! 0)"
    by (rule c(2) [rule_format], simp) (rule d(2) [rule_format], simp)
  then have rc: "to_rows ?c ! 0 = [Val (JStr ''A New Hope''), Num 4, Val (JStr ''A New Hope'')]"
    and rd: "to_rows ?d ! 0 = [Val (JStr ''A New Hope''), Num 4, Val (JStr ''A New Hope'')]"
    by (simp_all only: cc cd row_film nth_Cons_0)
  have n: "length (to_rows ?a) = 2" "nrows ?b = 3" "length (to_rows ?b) = 3"
    using a(2) b(2,3) len(1) by simp_all
  from run ra rb rc rd n ca cb cc cd show ?thesis by blast
qed

section \<open>Properties: column filter\<close>

lemma rows_filter:
  "map (\<lambda>(c, s). s ! i) (filter (\<lambda>(c, s). P c) cs) =
   map snd (filter (\<lambda>(c, x). P c) (zip (map fst cs) (map (\<lambda>(c, s). s ! i) cs)))"
  by (induction cs) auto

lemma to_rows_filter:
  "to_rows (df\<lparr>cols := filter (\<lambda>(c, s). P c) (cols df)\<rparr>) =
   map (\<lambda>row. map snd (filter (\<lambda>(c, x). P c) (zip (columns df) row))) (to_rows df)"
  by (simp add: to_rows_def columns_def rows_filter)

lemma map_of_filter_keys:
  "map_of (filter (\<lambda>(c, s). P c) cs) c = (if P c then map_of cs c else None)"
  by (induction cs) auto

lemma drop_columns_eq:
  "drop_columns df labels =
     (if set labels \<subseteq> set (columns df)
      then Inr (df\<lparr>cols := filter (\<lambda>(c, s). c \<notin> set labels) (cols df)\<rparr>)
      else Inl (KeyError (filter (\<lambda>l. l \<notin> set (columns df)) labels)))"
  by (auto simp: drop_columns_def Let_def filter_empty_conv)

lemma drop_inplace_eq:
  "drop_inplace df labels =
     (if set labels \<subseteq> set (columns df)
      then (Returned, df\<lparr>cols := filter (\<lambda>(c, s). c \<notin> set labels) (cols df)\<rparr>)
      else (Raised (KeyError (filter (\<lambda>l. l \<notin> set (columns df)) labels)), df))"
  by (simp add: drop_inplace_def drop_columns_eq update_inplace_def)

lemma store_unchanged: "map_of (data m) endpoint = Some df \<Longrightarrow> m\<lparr>data := AList.update endpoint df (data m)\<rparr> = m"
  by (simp add: update_triv)

text \<open>
  C2 (as amended). For a stored table and a list of column names that are all columns of the
  table, \<open>apply_filter\<close> returns and replaces the table by one without the listed columns:
  they leave the column set and every row, the other columns keep their order and their
  values, and the number of rows is the same. When some listed name is not a column of the
  table, \<open>apply_filter\<close> raises \<^verbatim>\<open>KeyError\<close> with the names not found, and the manager is as
  before. For a name with no stored table it returns and changes nothing.
\<close>

theorem apply_filter_drops:
  "(map_of (data m) endpoint = Some df \<and> set columns_to_drop \<subseteq> set (columns df) \<longrightarrow>
      (\<exists>df'. apply_filter m endpoint columns_to_drop =
                (Returned, m\<lparr>data := AList.update endpoint df' (data m)\<rparr>) \<and>
             columns df' = filter (\<lambda>c. c \<notin> set columns_to_drop) (columns df) \<and>
             nrows df' = nrows df \<and>
             (\<forall>c. c \<notin> set columns_to_drop \<longrightarrow> map_of (cols df') c = map_of (cols df) c) \<and>
             to_rows df' =
               map (\<lambda>row. map snd (filter (\<lambda>(c, x). c \<notin> set columns_to_drop) (zip (columns df) row)))
                 (to_rows df))) \<and>
   (map_of (data m) endpoint = Some df \<and> \<not> set columns_to_drop \<subseteq> set (columns df) \<longrightarrow>
      apply_filter m endpoint columns_to_drop =
        (Raised (KeyError (filter (\<lambda>l. l \<notin> set (columns df)) columns_to_drop)), m)) \<and>
   (map_of (data m) endpoint = None \<longrightarrow> apply_filter m endpoint columns_to_drop = (Returned, m))"
proof (intro conjI impI)
  assume a: "map_of (data m) endpoint = Some df \<and> set columns_to_drop \<subseteq> set (columns df)"
  let ?df' = "df\<lparr>cols := filter (\<lambda>(c, s). c \<notin> set columns_to_drop) (cols df)\<rparr>"
  have "apply_filter m endpoint columns_to_drop =
      (Returned, m\<lparr>data := AList.update endpoint ?df' (data m)\<rparr>)"
    using a by (simp add: apply_filter_def drop_inplace_eq)
  moreover have "columns ?df' = filter (\<lambda>c. c \<notin> set columns_to_drop) (columns df)"
    by (simp add: columns_def filter_map comp_def case_prod_unfold)
  moreover have "nrows ?df' = nrows df" by simp
  moreover have "\<forall>c. c \<notin> set columns_to_drop \<longrightarrow> map_of (cols ?df') c = map_of (cols df) c"
    by (simp add: map_of_filter_keys)
  moreover have "to_rows ?df' =
      map (\<lambda>row. map snd (filter (\<lambda>(c, x). c \<notin> set columns_to_drop) (zip (columns df) row)))
        (to_rows df)"
    by (rule to_rows_filter)
  ultimately show "\<exists>df'. apply_filter m endpoint columns_to_drop =
                (Returned, m\<lparr>data := AList.update endpoint df' (data m)\<rparr>) \<and>
             columns df' = filter (\<lambda>c. c \<notin> set columns_to_drop) (columns df) \<and>
             nrows df' = nrows df \<and>
             (\<forall>c. c \<notin> set columns_to_drop \<longrightarrow> map_of (cols df') c = map_of (cols df) c) \<and>
             to_rows df' =
               map (\<lambda>row. map snd (filter (\<lambda>(c, x). c \<notin> set columns_to_drop) (zip (columns df) row)))
                 (to_rows df)"
    by blast
next
  assume a: "map_of (data m) endpoint = Some df \<and> \<not> set columns_to_drop \<subseteq> set (columns df)"
  then have "m\<lparr>data := AList.update endpoint df (data m)\<rparr> = m"
    by (simp add: store_unchanged)
  with a show "apply_filter m endpoint columns_to_drop =
        (Raised (KeyError (filter (\<lambda>l. l \<notin> set (columns df)) columns_to_drop)), m)"
    by (simp add: apply_filter_def drop_inplace_eq)
next
  assume "map_of (data m) endpoint = None"
  then show "apply_filter m endpoint columns_to_drop = (Returned, m)"
    by (simp add: apply_filter_def)
qed

theorem apply_filter_drops_witness:
  "apply_filter with_planets ''planets'' [''name''] =
     (Returned, registered\<lparr>data := [(''planets'', population_only)]\<rparr>) \<and>
   apply_filter with_planets ''planets'' [''name'', ''z''] = (Raised (KeyError [''z'']), with_planets) \<and>
   apply_filter with_planets ''people'' [''name''] = (Returned, with_planets)"
proof -
  note d = with_planets_store
  from apply_filter_drops [of with_planets "''planets''" planets_table "[''name'']"]
  obtain df' where 1: "apply_filter with_planets ''planets'' [''name''] =
        (Returned, with_planets\<lparr>data := AList.update ''planets'' df' (data with_planets)\<rparr>)"
    by (auto simp: d)
  have "apply_filter with_planets ''planets'' [''name''] =
     (Returned, registered\<lparr>data := [(''planets'', population_only)]\<rparr>)"
    using 1 by (simp add: apply_filter_def d drop_name) (simp add: with_planets_def)
  moreover have "apply_filter with_planets ''planets'' [''name'', ''z''] = (Raised (KeyError [''z'']), with_planets)"
    using apply_filter_drops [of with_planets "''planets''" planets_table "[''name'', ''z'']"]
    by (simp add: d)
  moreover have "apply_filter with_planets ''people'' [''name''] = (Returned, with_planets)"
    using apply_filter_drops [of with_planets "''people''" _ "[''name'']"] by (simp add: d)
  ultimately show ?thesis by simp
qed

text \<open>
  C2 as stated fails: a listed column that the table does not have is not ignored, the call
  raises and drops nothing.
\<close>

theorem apply_filter_unknown_column_raises:
  "map_of (data with_planets) ''planets'' = Some planets_table \<and>
   columns planets_table = [''name'', ''population''] \<and>
   apply_filter with_planets ''planets'' [''name'', ''z''] = (Raised (KeyError [''z'']), with_planets)"
  by (simp add: with_planets_store apply_filter_def drop_unknown) (simp add: with_planets_def)



section \<open>Properties: fetching an entity\<close>

text \<open>
  C3 (as amended). For an endpoint with no registered processor: \<open>fetch_entity\<close> of
  \<^verbatim>\<open>main.py\<close> raises \<^verbatim>\<open>ValueError\<close> before any request, and the manager is unchanged;
  \<open>fetch_entity\<close> of \<^verbatim>\<open>swapi_manager.py\<close> fetches first and raises only what the fetch raises,
  returning normally when the fetch succeeds; in every case where it ends, the manager is
  unchanged.
\<close>

theorem fetch_entity_unregistered:
  "map_of (processors m) endpoint = None \<longrightarrow>
     main_fetch_entity srv pd m endpoint = (Raised (ValueError endpoint), m) \<and>
     fetch_entity srv pd m endpoint =
       (case fetch_json srv (client m) endpoint of
          None \<Rightarrow> None
        | Some (Inl e) \<Rightarrow> Some (Raised e, m)
        | Some (Inr json_data) \<Rightarrow> Some (Returned, m))"
  by (simp add: main_fetch_entity_def fetch_entity_def split: option.splits sum.splits)

theorem fetch_entity_unregistered_witness:
  "map_of (processors (init ''api/'' :: (json, int) manager)) ''planets'' = None \<and>
   main_fetch_entity swapi example_pandas (init ''api/'') ''planets'' =
     (Raised (ValueError ''planets''), init ''api/'') \<and>
   fetch_entity swapi example_pandas (init ''api/'') ''planets'' = Some (Returned, init ''api/'') \<and>
   fetch_entity swapi example_pandas (init ''api/'') ''films'' =
     Some (Raised (HTTPError 500 ''api/films?page=2''), init ''api/'')"
proof -
  have p: "map_of (processors (init ''api/'' :: (json, int) manager)) ''planets'' = None"
    "map_of (processors (init ''api/'' :: (json, int) manager)) ''films'' = None"
    "client (init ''api/'' :: (json, int) manager) = ''api/''"
    by (simp_all add: init_def)
  have f: "fetch_json swapi ''api/'' ''films'' = Some (Inl (HTTPError 500 ''api/films?page=2''))"
    by (simp add: fetch_json_def fetch_loop.simps swapi_def raises_for_status_def)
  from fetch_entity_unregistered [of "init ''api/''" "''planets''" swapi example_pandas]
    fetch_entity_unregistered [of "init ''api/''" "''films''" swapi example_pandas]
  show ?thesis by (simp add: p f fetch_json_planets)
qed

text \<open>
  C3 as stated fails for \<^verbatim>\<open>swapi_manager.py\<close>: with no processor registered for the endpoint
  and a server that answers, \<open>fetch_entity\<close> returns normally.
\<close>

theorem fetch_entity_unregistered_returns:
  "map_of (processors (init ''api/'' :: (json, int) manager)) ''planets'' = None \<and>
   fetch_entity swapi example_pandas (init ''api/'') ''planets'' = Some (Returned, init ''api/'')"
  by (simp add: fetch_entity_def fetch_json_planets init_def)





section \<open>Properties: the entity store\<close>

lemma keys_update: "map fst (AList.update k v al) = add_key (map fst al) k"
  by (simp add: update_keys add_key_def)

lemma keys_update_present:
  "map_of al k = Some v \<Longrightarrow> map fst (AList.update k w al) = map fst al"
  by (auto simp: update_keys dest!: map_of_SomeD intro: rev_image_eqI)

lemma first_seen_snoc: "first_seen (h @ [e]) = add_key (first_seen h) e"
  by (simp add: first_seen_def)

lemma distinct_first_seen: "distinct (first_seen h)"
  by (simp add: first_seen_def fold_add_key_distinct)

lemma fetch_entity_stored:
  assumes "fetch_entity srv pd m endpoint = Some (Returned, m')"
    and "map_of (processors m) endpoint = Some p"
  shows "\<exists>json_data df. fetch_json srv (client m) endpoint = Some (Inr json_data) \<and>
           process pd p json_data = Inr df \<and>
           m' = m\<lparr>data := AList.update endpoint df (data m)\<rparr>"
  using assms by (auto simp: fetch_entity_def split: option.splits sum.splits)

lemma fetch_entity_not_stored:
  assumes "fetch_entity srv pd m endpoint = Some (out, m')"
    and "out \<noteq> Returned \<or> map_of (processors m) endpoint = None"
  shows "m' = m"
  using assms by (auto simp: fetch_entity_def split: option.splits sum.splits)

lemma main_fetch_entity_stored:
  assumes "main_fetch_entity srv pd m endpoint = (Returned, m')"
  shows "\<exists>p json_data df. map_of (processors m) endpoint = Some p \<and>
           main_fetch_json srv (client m) endpoint = Inr json_data \<and>
           main_process pd p json_data = Inr df \<and>
           m' = m\<lparr>data := AList.update endpoint df (data m)\<rparr>"
  using assms by (auto simp: main_fetch_entity_def split: option.splits sum.splits)

lemma main_fetch_entity_raised:
  "main_fetch_entity srv pd m endpoint = (Raised e, m') \<Longrightarrow> m' = m"
  by (auto simp: main_fetch_entity_def split: option.splits sum.splits)

lemma apply_filter_keys:
  "apply_filter m endpoint columns_to_drop = (out, m') \<Longrightarrow> map fst (data m') = map fst (data m)"
  by (auto simp: apply_filter_def keys_update_present split: option.splits prod.splits)

lemma reachable_keys: "reachable h m \<Longrightarrow> map fst (data m) = first_seen h"
proof (induction rule: reachable.induct)
  case (r_init base_url)
  show ?case by (simp add: init_def first_seen_def)
next
  case (r_register h m endpoint p)
  then show ?case by (simp add: register_processor_def)
next
  case (r_fetch_stored h m srv pd endpoint m')
  from r_fetch_stored.hyps(3) obtain p where "map_of (processors m) endpoint = Some p" by auto
  from fetch_entity_stored [OF r_fetch_stored.hyps(2) this] r_fetch_stored.IH
  show ?case by (auto simp: keys_update first_seen_snoc)
next
  case (r_fetch_skipped h m srv pd endpoint m')
  with fetch_entity_not_stored [of srv pd m endpoint Returned m'] show ?case by simp
next
  case (r_fetch_raised h m srv pd endpoint e m')
  with fetch_entity_not_stored [of srv pd m endpoint "Raised e" m'] show ?case by simp
next
  case (r_main_fetch_stored h m srv pd endpoint m')
  from main_fetch_entity_stored [OF r_main_fetch_stored.hyps(2)] r_main_fetch_stored.IH
  show ?case by (auto simp: keys_update first_seen_snoc)
next
  case (r_main_fetch_raised h m srv pd endpoint e m')
  with main_fetch_entity_raised [of srv pd m endpoint e m'] show ?case by simp
next
  case (r_filter h m endpoint columns_to_drop out m')
  with apply_filter_keys [of m endpoint columns_to_drop out m'] show ?case by simp
qed

text \<open>
  C8. In every reachable state no entity name has two tables, and the names stand in the
  store, which is what the export iterates over, in the order in which they were first
  stored. A \<open>fetch_entity\<close> that returns for a registered name stores under that name the
  table that the processor computes from the fetched records alone, whatever was stored
  before; the tables of the other names stay, and the name keeps its place or, when new, goes
  to the end.
\<close>

theorem store_one_table_per_name:
  "(reachable h m \<longrightarrow> distinct (map fst (data m)) \<and> map fst (data m) = first_seen h) \<and>
   (fetch_entity srv pd m endpoint = Some (Returned, m') \<and>
    map_of (processors m) endpoint = Some p \<longrightarrow>
      (\<exists>json_data df. fetch_json srv (client m) endpoint = Some (Inr json_data) \<and>
         process pd p json_data = Inr df \<and>
         map_of (data m') endpoint = Some df \<and>
         (\<forall>k. k \<noteq> endpoint \<longrightarrow> map_of (data m') k = map_of (data m) k) \<and>
         map fst (data m') = add_key (map fst (data m)) endpoint)) \<and>
   (main_fetch_entity srv pd m endpoint = (Returned, m'') \<longrightarrow>
      (\<exists>p json_data df. map_of (processors m) endpoint = Some p \<and>
         main_fetch_json srv (client m) endpoint = Inr json_data \<and>
         main_process pd p json_data = Inr df \<and>
         map_of (data m'') endpoint = Some df \<and>
         (\<forall>k. k \<noteq> endpoint \<longrightarrow> map_of (data m'') k = map_of (data m) k) \<and>
         map fst (data m'') = add_key (map fst (data m)) endpoint))"
proof (intro conjI impI)
  assume r: "reachable h m"
  show "map fst (data m) = first_seen h" by (rule reachable_keys [OF r])
  then show "distinct (map fst (data m))" by (simp add: distinct_first_seen)
next
  assume "fetch_entity srv pd m endpoint = Some (Returned, m') \<and>
    map_of (processors m) endpoint = Some p"
  then obtain json_data df where "fetch_json srv (client m) endpoint = Some (Inr json_data)"
    "process pd p json_data = Inr df" "m' = m\<lparr>data := AList.update endpoint df (data m)\<rparr>"
    using fetch_entity_stored by blast
  then show "\<exists>json_data df. fetch_json srv (client m) endpoint = Some (Inr json_data) \<and>
         process pd p json_data = Inr df \<and>
         map_of (data m') endpoint = Some df \<and>
         (\<forall>k. k \<noteq> endpoint \<longrightarrow> map_of (data m') k = map_of (data m) k) \<and>
         map fst (data m') = add_key (map fst (data m)) endpoint"
    by (simp add: update_conv' keys_update)
next
  assume "main_fetch_entity srv pd m endpoint = (Returned, m'')"
  then obtain p json_data df where "map_of (processors m) endpoint = Some p"
    "main_fetch_json srv (client m) endpoint = Inr json_data"
    "main_process pd p json_data = Inr df" "m'' = m\<lparr>data := AList.update endpoint df (data m)\<rparr>"
    using main_fetch_entity_stored by blast
  then show "\<exists>p json_data df. map_of (processors m) endpoint = Some p \<and>
         main_fetch_json srv (client m) endpoint = Inr json_data \<and>
         main_process pd p json_data = Inr df \<and>
         map_of (data m'') endpoint = Some df \<and>
         (\<forall>k. k \<noteq> endpoint \<longrightarrow> map_of (data m'') k = map_of (data m) k) \<and>
         map fst (data m'') = add_key (map fst (data m)) endpoint"
    by (simp add: update_conv' keys_update)
qed

theorem store_one_table_per_name_witness:
  "reachable [''planets'', ''PLANETS''] two_planets \<and>
   distinct (map fst (data two_planets)) \<and>
   map fst (data two_planets) = [''planets'', ''PLANETS''] \<and>
   map_of (data two_planets) ''PLANETS'' = Some population_only \<and>
   (\<exists>m'. fetch_entity swapi example_pandas two_planets ''PLANETS'' = Some (Returned, m') \<and>
      map_of (data m') ''PLANETS'' = Some planets_table \<and>
      map_of (data m') ''planets'' = Some planets_table \<and>
      map fst (data m') = [''planets'', ''PLANETS''])"
proof -
  let ?m' = "registered\<lparr>data := [(''planets'', planets_table), (''PLANETS'', planets_table)]\<rparr>"
  have p: "map_of (processors two_planets) ''PLANETS'' = Some PlanetsProcessor"
    by (simp add: two_planets_def registered_fields)
  note t = store_one_table_per_name [of "[''planets'', ''PLANETS'']" two_planets swapi example_pandas
      "''PLANETS''" ?m' PlanetsProcessor]
  from t two_planets_reachable
  have "distinct (map fst (data two_planets)) \<and>
      map fst (data two_planets) = first_seen [''planets'', ''PLANETS'']"
    by blast
  moreover have "first_seen [''planets'', ''PLANETS''] = [''planets'', ''PLANETS'']"
    by (simp add: first_seen_def add_key_def)
  moreover have "map_of (data two_planets) ''PLANETS'' = Some population_only"
    by (simp add: two_planets_def)
  moreover have "map_of (data ?m') ''PLANETS'' = Some planets_table \<and>
      map_of (data ?m') ''planets'' = Some planets_table \<and>
      map fst (data ?m') = [''planets'', ''PLANETS'']"
    by simp
  ultimately show ?thesis using two_planets_reachable refetch_PLANETS by auto
qed

section \<open>Properties: export\<close>

lemma to_excel_new:
  assumes "sheet_name \<notin> set (map fst writer)" and "create_sheet (map fst writer) sheet_name = Inr sheet_name"
  shows "to_excel create_sheet writer df sheet_name = Inr (writer @ [(sheet_name, sheet_cells df)])"
proof -
  from assms(1) have "map_of writer sheet_name = None"
    by (simp add: map_of_eq_None_iff)
  with assms(2) show ?thesis by (simp add: to_excel_def)
qed

lemma write_sheets_all:
  "distinct (map fst writer @ map (\<lambda>(k, df). f k) xs) \<Longrightarrow>
   accepted create_sheet (map fst writer) (map (\<lambda>(k, df). f k) xs) \<Longrightarrow>
   write_sheets create_sheet f xs writer =
   Inr (writer @ map (\<lambda>(k, df). (f k, sheet_cells df)) xs)"
proof (induction xs arbitrary: writer)
  case Nil
  show ?case by simp
next
  case (Cons x xs)
  obtain k df where x: "x = (k, df)" by (cases x)
  let ?w = "writer @ [(f k, sheet_cells df)]"
  from Cons.prems have new: "f k \<notin> set (map fst writer)"
    and ok: "create_sheet (map fst writer) (f k) = Inr (f k)"
    and rest: "distinct (map fst ?w @ map (\<lambda>(k, df). f k) xs)"
      "accepted create_sheet (map fst ?w) (map (\<lambda>(k, df). f k) xs)"
    by (auto simp: x)
  have "to_excel create_sheet writer df (f k) = Inr ?w"
    using new ok by (rule to_excel_new)
  then show ?case
    using Cons.IH [OF rest] by (simp add: x)
qed

text \<open>
  C9 (as amended). For a store that is not empty, whose sheet names are pairwise distinct
  and are each given by the writer as asked for, the export returns the workbook with one
  sheet per stored table, in store order; the sheet of a table has as its first row the
  column names in column order and below it the rows of the table in table order. The sheet
  name is the capitalised entity name in \<^verbatim>\<open>swapi_manager.py\<close> and the entity name itself in
  \<^verbatim>\<open>main.py\<close>. For the empty store the export raises \<^verbatim>\<open>IndexError\<close>.
\<close>

theorem save_to_excel_sheets:
  "(data m \<noteq> [] \<and>
    distinct (map (\<lambda>(endpoint, df). capitalize endpoint) (data m)) \<and>
    accepted create_sheet [] (map (\<lambda>(endpoint, df). capitalize endpoint) (data m)) \<longrightarrow>
      save_to_excel create_sheet capitalize m =
        Inr (map (\<lambda>(endpoint, df).
                    (capitalize endpoint, map Header (columns df) # map (map Body) (to_rows df)))
               (data m))) \<and>
   (data m \<noteq> [] \<and>
    distinct (map (\<lambda>(endpoint, df). endpoint) (data m)) \<and>
    accepted create_sheet [] (map (\<lambda>(endpoint, df). endpoint) (data m)) \<longrightarrow>
      main_save_to_excel create_sheet m =
        Inr (map (\<lambda>(endpoint, df). (endpoint, map Header (columns df) # map (map Body) (to_rows df)))
               (data m))) \<and>
   (data m = [] \<longrightarrow>
      save_to_excel create_sheet capitalize m = Inl IndexError \<and>
      main_save_to_excel create_sheet m = Inl IndexError)"
proof (intro conjI impI)
  assume a: "data m \<noteq> [] \<and>
    distinct (map (\<lambda>(endpoint, df). capitalize endpoint) (data m)) \<and>
    accepted create_sheet [] (map (\<lambda>(endpoint, df). capitalize endpoint) (data m))"
  then have "write_sheets create_sheet capitalize (data m) [] =
      Inr ([] @ map (\<lambda>(k, df). (capitalize k, sheet_cells df)) (data m))"
    by (intro write_sheets_all) simp_all
  with a show "save_to_excel create_sheet capitalize m =
        Inr (map (\<lambda>(endpoint, df).
                    (capitalize endpoint, map Header (columns df) # map (map Body) (to_rows df)))
               (data m))"
    by (simp add: save_to_excel_def close_writer_def sheet_cells_def)
next
  assume a: "data m \<noteq> [] \<and>
    distinct (map (\<lambda>(endpoint, df). endpoint) (data m)) \<and>
    accepted create_sheet [] (map (\<lambda>(endpoint, df). endpoint) (data m))"
  then have "write_sheets create_sheet (\<lambda>endpoint. endpoint) (data m) [] =
      Inr ([] @ map (\<lambda>(k, df). (k, sheet_cells df)) (data m))"
    by (intro write_sheets_all) simp_all
  with a show "main_save_to_excel create_sheet m =
        Inr (map (\<lambda>(endpoint, df). (endpoint, map Header (columns df) # map (map Body) (to_rows df)))
               (data m))"
    by (simp add: main_save_to_excel_def close_writer_def sheet_cells_def)
next
  assume "data m = []"
  then show "save_to_excel create_sheet capitalize m = Inl IndexError"
    "main_save_to_excel create_sheet m = Inl IndexError"
    by (simp_all add: save_to_excel_def main_save_to_excel_def close_writer_def)
qed

theorem save_to_excel_sheets_witness:
  "save_to_excel as_asked ascii_capitalize planets_and_films =
     Inr [(''Planets'',
           [[Header ''name'', Header ''population''],
            [Body (Val (JStr ''A'')), Body (Num 1000)],
            [Body (Val (JStr ''B'')), Body NaN],
            [Body (Val (JStr ''C'')), Body (Num 42)]]),
          (''Films'',
           [[Header ''title'', Header ''episode_id'', Header ''film_title''],
            [Body (Val (JStr ''A New Hope'')), Body (Num 4), Body (Val (JStr ''A New Hope''))]])] \<and>
   main_save_to_excel as_asked planets_and_films =
     Inr [(''planets'',
           [[Header ''name'', Header ''population''],
            [Body (Val (JStr ''A'')), Body (Num 1000)],
            [Body (Val (JStr ''B'')), Body NaN],
            [Body (Val (JStr ''C'')), Body (Num 42)]]),
          (''films'',
           [[Header ''title'', Header ''episode_id'', Header ''film_title''],
            [Body (Val (JStr ''A New Hope'')), Body (Num 4), Body (Val (JStr ''A New Hope''))]])] \<and>
   save_to_excel as_asked ascii_capitalize registered = Inl IndexError \<and>
   main_save_to_excel as_asked registered = Inl IndexError"
proof -
  have d: "data planets_and_films = [(''planets'', planets_table), (''films'', films_table)]"
    by (simp add: planets_and_films_def)
  from save_to_excel_sheets [of planets_and_films ascii_capitalize as_asked]
    save_to_excel_sheets [of registered ascii_capitalize as_asked]
  show ?thesis
    by (simp add: d registered_fields example_titles example_columns to_rows_planets as_asked_def)
qed

text \<open>
  C9 as stated fails for \<^verbatim>\<open>swapi_manager.py\<close>: the reachable store \<open>two_planets\<close> holds two
  tables, whose names differ in case only; the writer accepts the one sheet name \<open>Planets\<close>,
  the export writes both tables into that sheet, and the first column of the first table is
  lost.
\<close>

theorem save_to_excel_merges_sheets:
  "reachable [''planets'', ''PLANETS''] two_planets \<and>
   map fst (data two_planets) = [''planets'', ''PLANETS''] \<and>
   accepted as_asked [] [ascii_capitalize ''planets''] \<and>
   save_to_excel as_asked ascii_capitalize two_planets =
     Inr [(''Planets'',
           [[Header ''population'', Header ''population''],
            [Body (Num 1000), Body (Num 1000)],
            [Body NaN, Body NaN],
            [Body (Num 42), Body (Num 42)]])]"
proof -
  have "save_to_excel as_asked ascii_capitalize two_planets =
     Inr [(''Planets'',
           [[Header ''population'', Header ''population''],
            [Body (Num 1000), Body (Num 1000)],
            [Body NaN, Body NaN],
            [Body (Num 42), Body (Num 42)]])]"
    by (simp add: save_to_excel_def two_planets_def to_excel_def close_writer_def sheet_cells_def
        example_titles example_columns to_rows_planets as_asked_def)
  moreover have "map fst (data two_planets) = [''planets'', ''PLANETS'']"
    by (simp add: two_planets_def)
  moreover have "accepted as_asked [] [ascii_capitalize ''planets'']"
    by (simp add: as_asked_def)
  ultimately show ?thesis using two_planets_reachable by simp
qed

end
